theory Spec2Isabelle
  imports Main "HOL-Library.Sublist"
begin

unbundle bit_operations_syntax

section \<open>genmc: a plugin that displays Hex-Rays microcode\<close>

text \<open>
  The script \<^verbatim>\<open>genmc.py\<close> runs inside a disassembler host. Everything it does is a
  call into the host API (\<^verbatim>\<open>kw\<close>, \<^verbatim>\<open>hr\<close>, \<^verbatim>\<open>ida_*\<close>), into the Python library
  (\<^verbatim>\<open>os.path\<close>, \<^verbatim>\<open>shutil\<close>) or a Python builtin. The embedding keeps the script's
  functions as they are written and makes the host explicit: a record \<open>host\<close> holds the
  answers the host gives, the file system, and the trace of host calls made so far.
\<close>

subsection \<open>Python exceptions and the builtins the script uses\<close>

datatype py_error =
    AttributeError string string  \<comment> \<open>object, attribute\<close>
  | OSError nat                   \<comment> \<open>errno\<close>
  | IOError nat                   \<comment> \<open>errno\<close>
  | ValueError string
  | IndexError
  | ShutilError string string     \<comment> \<open>\<^verbatim>\<open>shutil.Error\<close>: source and target are the same file\<close>

definition EEXIST :: nat where "EEXIST = 17"
definition ENOENT :: nat where "ENOENT = 2"

text \<open>\<^verbatim>\<open>s.split(sep)\<close> for a one-character separator: the fields between the separators,
  empty fields kept, so the result is never the empty list.\<close>

fun py_split :: "string \<Rightarrow> char \<Rightarrow> string list" where
  "py_split [] sep = [[]]"
| "py_split (c # cs) sep =
     (if c = sep then [] # py_split cs sep
      else (case py_split cs sep of
              [] \<Rightarrow> [[c]]
            | w # ws \<Rightarrow> (c # w) # ws))"

text \<open>\<^verbatim>\<open>int(s)\<close> on a string: surrounding whitespace is dropped, then an optional sign
  and a non-empty run of decimal digits are read; anything else raises ValueError.\<close>

definition is_space :: "char \<Rightarrow> bool" where
  "is_space c = (c = CHR '' '' \<or> ((9::nat) \<le> of_char c \<and> (of_char c :: nat) \<le> 13))"

definition is_digit :: "char \<Rightarrow> bool" where
  "is_digit c = ((48::nat) \<le> of_char c \<and> (of_char c :: nat) \<le> 57)"

definition py_strip :: "string \<Rightarrow> string" where
  "py_strip s = rev (dropWhile is_space (rev (dropWhile is_space s)))"

definition digits_value :: "string \<Rightarrow> nat" where
  "digits_value ds = foldl (\<lambda>acc c. 10 * acc + (of_char c - 48)) (0::nat) ds"

definition py_int :: "string \<Rightarrow> py_error + int" where
  "py_int s =
     (let t = py_strip s;
          neg = (t \<noteq> [] \<and> hd t = CHR ''-'');
          ds = (if t \<noteq> [] \<and> (hd t = CHR ''-'' \<or> hd t = CHR ''+'') then tl t else t)
      in if ds = [] \<or> \<not> list_all is_digit ds then Inl (ValueError s)
         else Inr (if neg then - int (digits_value ds) else int (digits_value ds)))"

text \<open>\<^verbatim>\<open>"%0<w>x" % n\<close>: lower-case hexadecimal, zero-padded to a width of at least \<open>w\<close>
  characters; a negative number keeps its sign in front of the padding. \<open>hex_digit\<close> is
  only applied to digits below 16.\<close>

definition hex_digit :: "nat \<Rightarrow> char" where
  "hex_digit d = ''0123456789abcdef'' ! d"

fun hex_nat :: "nat \<Rightarrow> string" where
  "hex_nat n = (if n < 16 then [hex_digit n] else hex_nat (n div 16) @ [hex_digit (n mod 16)])"

declare hex_nat.simps [simp del]

definition zfill :: "nat \<Rightarrow> string \<Rightarrow> string" where
  "zfill w s = replicate (w - length s) (CHR ''0'') @ s"

definition fmt_0x :: "nat \<Rightarrow> int \<Rightarrow> string" where
  "fmt_0x w n =
     (if n < 0 then CHR ''-'' # zfill (w - 1) (hex_nat (nat (- n)))
      else zfill w (hex_nat (nat n)))"

text \<open>\<^verbatim>\<open>needle in hay\<close> on strings: \<open>needle\<close> occurs as a contiguous piece of \<open>hay\<close>.\<close>

fun str_in :: "string \<Rightarrow> string \<Rightarrow> bool" where
  "str_in needle [] = (needle = [])"
| "str_in needle (c # cs) = (prefix needle (c # cs) \<or> str_in needle cs)"

text \<open>\<^verbatim>\<open>xs[i]\<close>: a negative index counts from the end, an index out of range raises
  IndexError.\<close>

definition py_index :: "'a list \<Rightarrow> int \<Rightarrow> py_error + 'a" where
  "py_index xs i =
     (if 0 \<le> i \<and> i < int (length xs) then Inr (xs ! nat i)
      else if i < 0 \<and> - int (length xs) \<le> i then Inr (xs ! nat (int (length xs) + i))
      else Inl IndexError)"

subsection \<open>The host\<close>

text \<open>Maturity levels and the other enumerations of the host API are opaque constants
  to the script; they are datatypes here.\<close>

datatype mmat_t =
    MMAT_GENERATED | MMAT_PREOPTIMIZED | MMAT_LOCOPT | MMAT_CALLS
  | MMAT_GLBOPT1 | MMAT_GLBOPT2 | MMAT_GLBOPT3 | MMAT_LVARS

datatype askbtn = ASKBTN_YES | ASKBTN_NO | ASKBTN_CANCEL

datatype plugin_rc = PLUGIN_SKIP | PLUGIN_OK | PLUGIN_KEEP

record func_t =
  start_ea :: int
  end_ea :: int

record hexrays_failure_t =
  errea :: int
  str :: string

text \<open>A microcode block, as far as the script sees it: its flag word, and the text dump
  the host produces for a flag word, one (indent, line) pair per call of the printer
  callback.\<close>

record mba_t =
  mba_flags :: int
  mba_dump :: "int \<Rightarrow> (int \<times> string) list"

text \<open>The form \<^verbatim>\<open>MaturityForm\<close> hands to the host: its template and its two controls.\<close>

record form_t =
  form_template :: string
  mat_lvl_items :: "string list"
  chkgroup_flags :: "string list"

text \<open>Every call into the host API is recorded, in order, with its arguments.\<close>

datatype event =
    Kw_msg string
  | Kw_warning string
  | Kw_ask_yn askbtn string
  | Kw_get_kernel_version
  | Hr_init_hexrays_plugin
  | Diskio_get_user_idadir
  | Kw_read_range_selection
  | Kw_get_screen_ea
  | Funcs_get_func int
  | Ida_inf_is_64bit
  | Bytes_get_flags int
  | Bytes_is_code int
  | Form_Compile form_t
  | Form_Execute
  | Form_Free
  | Hr_gen_microcode int int int "mmat_t option"
  | Mba_set_mba_flags int
  | Mba_print
  | Viewer_Create string
  | Viewer_AddLine string
  | Viewer_Show

text \<open>The host: the module globals \<^verbatim>\<open>__name__\<close> and \<^verbatim>\<open>__file__\<close>, the file system,
  the answer of each host function, the two host constants the script uses as numbers,
  and the trace.\<close>

record host =
  py_name :: string
  py_file :: string
  fs_files :: "string \<rightharpoonup> string"
  fs_dirs :: "string set"
  user_idadir :: string
  ask_yn_reply :: askbtn
  kernel_version :: string
  hexrays_present :: bool
  range_selection :: "bool \<times> int \<times> int"
  screen_ea :: int
  funcs :: "int \<Rightarrow> func_t option"
  inf_64bit :: bool
  byte_flags :: "int \<Rightarrow> int"
  code_flags :: "int \<Rightarrow> bool"
  form_ok :: int
  form_mat_lvl :: int
  form_flags_short :: bool
  MBA_SHORT :: int
  DECOMP_WARNINGS :: int
  microcode :: "int \<Rightarrow> int \<Rightarrow> int \<Rightarrow> mmat_t option \<Rightarrow> hexrays_failure_t + mba_t"
  viewer_ok :: bool
  trace :: "event list"

text \<open>A computation of the script: it reads and changes the host and either returns a
  value or raises.\<close>

type_synonym 'a io = "host \<Rightarrow> (py_error + 'a) \<times> host"

definition io_return :: "'a \<Rightarrow> 'a io" where
  "io_return x = (\<lambda>h. (Inr x, h))"

definition io_raise :: "py_error \<Rightarrow> 'a io" where
  "io_raise e = (\<lambda>h. (Inl e, h))"

definition io_bind :: "'a io \<Rightarrow> ('a \<Rightarrow> 'b io) \<Rightarrow> 'b io" where
  "io_bind m f = (\<lambda>h. case m h of (Inl e, h') \<Rightarrow> (Inl e, h') | (Inr x, h') \<Rightarrow> f x h')"

definition io_try :: "'a io \<Rightarrow> (py_error \<Rightarrow> 'a io) \<Rightarrow> 'a io" where
  "io_try m handler = (\<lambda>h. case m h of (Inl e, h') \<Rightarrow> handler e h' | (Inr x, h') \<Rightarrow> (Inr x, h'))"

definition io_lift :: "py_error + 'a \<Rightarrow> 'a io" where
  "io_lift r = (\<lambda>h. (r, h))"

definition io_read :: "(host \<Rightarrow> 'a) \<Rightarrow> 'a io" where
  "io_read g = (\<lambda>h. (Inr (g h), h))"

definition host_call :: "event \<Rightarrow> (host \<Rightarrow> 'a) \<Rightarrow> 'a io" where
  "host_call ev answer = (\<lambda>h. (Inr (answer h), h\<lparr>trace := trace h @ [ev]\<rparr>))"

text \<open>The events a computation adds to the trace when run from \<open>h\<close>.\<close>

definition events_of :: "'a io \<Rightarrow> host \<Rightarrow> event list" where
  "events_of m h = drop (length (trace h)) (trace (snd (m h)))"

subsubsection \<open>Host functions\<close>

definition kw_msg :: "string \<Rightarrow> unit io" where
  "kw_msg s = host_call (Kw_msg s) (\<lambda>h. ())"

definition kw_warning :: "string \<Rightarrow> unit io" where
  "kw_warning s = host_call (Kw_warning s) (\<lambda>h. ())"

definition kw_ask_yn :: "askbtn \<Rightarrow> string \<Rightarrow> askbtn io" where
  "kw_ask_yn deflt question = host_call (Kw_ask_yn deflt question) ask_yn_reply"

definition kw_get_kernel_version :: "string io" where
  "kw_get_kernel_version = host_call Kw_get_kernel_version kernel_version"

definition hr_init_hexrays_plugin :: "bool io" where
  "hr_init_hexrays_plugin = host_call Hr_init_hexrays_plugin hexrays_present"

definition ida_diskio_get_user_idadir :: "string io" where
  "ida_diskio_get_user_idadir = host_call Diskio_get_user_idadir user_idadir"

definition kw_read_range_selection :: "(bool \<times> int \<times> int) io" where
  "kw_read_range_selection = host_call Kw_read_range_selection range_selection"

definition kw_get_screen_ea :: "int io" where
  "kw_get_screen_ea = host_call Kw_get_screen_ea screen_ea"

definition ida_funcs_get_func :: "int \<Rightarrow> func_t option io" where
  "ida_funcs_get_func ea = host_call (Funcs_get_func ea) (\<lambda>h. funcs h ea)"

definition ida_ida_inf_is_64bit :: "bool io" where
  "ida_ida_inf_is_64bit = host_call Ida_inf_is_64bit inf_64bit"

definition ida_bytes_get_flags :: "int \<Rightarrow> int io" where
  "ida_bytes_get_flags ea = host_call (Bytes_get_flags ea) (\<lambda>h. byte_flags h ea)"

definition ida_bytes_is_code :: "int \<Rightarrow> bool io" where
  "ida_bytes_is_code F = host_call (Bytes_is_code F) (\<lambda>h. code_flags h F)"

definition hr_gen_microcode ::
  "int \<Rightarrow> int \<Rightarrow> int \<Rightarrow> mmat_t option \<Rightarrow> (hexrays_failure_t + mba_t) io" where
  "hr_gen_microcode sea eea decomp_flags mmat =
     host_call (Hr_gen_microcode sea eea decomp_flags mmat)
       (\<lambda>h. microcode h sea eea decomp_flags mmat)"

subsubsection \<open>The Python library: \<^verbatim>\<open>os.path\<close> (POSIX flavour) and \<^verbatim>\<open>shutil\<close>\<close>

definition os_path_join :: "string \<Rightarrow> string \<Rightarrow> string" where
  "os_path_join a b =
     (if b \<noteq> [] \<and> hd b = CHR ''/'' then b
      else if a = [] \<or> last a = CHR ''/'' then a @ b
      else a @ ''/'' @ b)"

definition os_path_dirname :: "string \<Rightarrow> string" where
  "os_path_dirname p =
     (let head = rev (dropWhile (\<lambda>c. c \<noteq> CHR ''/'') (rev p))
      in if head \<noteq> [] \<and> head \<noteq> replicate (length head) (CHR ''/'')
         then rev (dropWhile (\<lambda>c. c = CHR ''/'') (rev head))
         else head)"

definition os_path_basename :: "string \<Rightarrow> string" where
  "os_path_basename p = rev (takeWhile (\<lambda>c. c \<noteq> CHR ''/'') (rev p))"

definition os_path_isfile :: "string \<Rightarrow> bool io" where
  "os_path_isfile p = io_read (\<lambda>h. fs_files h p \<noteq> None)"

definition os_path_exists :: "string \<Rightarrow> bool io" where
  "os_path_exists p = io_read (\<lambda>h. p \<in> fs_dirs h \<or> fs_files h p \<noteq> None)"

text \<open>The script calls \<^verbatim>\<open>os.path.makedirs(usrdir)\<close>. The module \<^verbatim>\<open>os.path\<close> has no
  attribute of that name (\<^verbatim>\<open>makedirs\<close> is a function of \<^verbatim>\<open>os\<close>), so Python raises
  AttributeError when it evaluates \<^verbatim>\<open>os.path.makedirs\<close>, before anything is called:
  no directory is made.\<close>

definition os_path_makedirs :: "string \<Rightarrow> unit io" where
  "os_path_makedirs p = io_raise (AttributeError ''os.path'' ''makedirs'')"

text \<open>\<^verbatim>\<open>shutil.copy(src, dst)\<close>: into the directory \<open>dst\<close> under the source's base name,
  or onto the file \<open>dst\<close>. It first refuses to copy an existing file onto itself
  (\<^verbatim>\<open>shutil.Error\<close>); then a missing source and a missing target directory raise
  IOError; otherwise the target's content becomes the source's.\<close>

definition shutil_copy :: "string \<Rightarrow> string \<Rightarrow> unit io" where
  "shutil_copy src dst = (\<lambda>h.
     let target = (if dst \<in> fs_dirs h then os_path_join dst (os_path_basename src) else dst)
     in if fs_files h src \<noteq> None \<and> src = target then (Inl (ShutilError src target), h)
        else case fs_files h src of
               None \<Rightarrow> (Inl (IOError ENOENT), h)
             | Some content \<Rightarrow>
                 if os_path_dirname target \<notin> fs_dirs h then (Inl (IOError ENOENT), h)
                 else (Inr (), h\<lparr>fs_files := (fs_files h)(target \<mapsto> content)\<rparr>))"

subsection \<open>The installer\<close>

definition wanted_name :: string where
  "wanted_name = ''genmc''"

definition is_plugin :: "bool io" where
  "is_plugin = io_read (\<lambda>h. str_in ''__plugins__'' (py_name h))"

definition get_target_dir :: "string io" where
  "get_target_dir =
     io_bind ida_diskio_get_user_idadir (\<lambda>idadir.
     let base = os_path_join idadir ''plugins''
     in io_return (os_path_join base (wanted_name @ ''.py'')))"

definition is_installed :: "bool io" where
  "is_installed = io_bind get_target_dir os_path_isfile"

definition SELF :: "string io" where
  "SELF = io_read py_file"

text \<open>An early \<^verbatim>\<open>return False\<close> is the \<open>else\<close> branch of the test that guards the rest
  of the body. The handler of \<^verbatim>\<open>except OSError as e\<close> lets every other exception
  pass; the bare \<^verbatim>\<open>except\<close> around the copy takes every exception.\<close>

definition install_plugin :: "bool io" where
  "install_plugin =
     io_bind is_plugin (\<lambda>plugin.
     if plugin then
       io_bind (kw_msg ''Command not available. Plugin already installed.\<newline>'') (\<lambda>_.
       io_return False)
     else
       io_bind SELF (\<lambda>src.
       io_bind is_installed (\<lambda>installed.
       io_bind (if installed
                then io_bind (kw_ask_yn ASKBTN_NO ''File exists. Replace?'') (\<lambda>btnid.
                     io_return (btnid \<noteq> ASKBTN_YES))
                else io_return False) (\<lambda>declined.
       if declined then io_return False
       else
         io_bind get_target_dir (\<lambda>dst.
         let usrdir = os_path_dirname dst in
         io_bind (kw_msg (''Copying script from '' @ [CHR 0x22] @ src @ [CHR 0x22] @ '' to ''
                          @ [CHR 0x22] @ usrdir @ [CHR 0x22] @ '' ...'')) (\<lambda>_.
         io_bind (os_path_exists usrdir) (\<lambda>ex.
         io_bind (if \<not> ex
                  then io_try (io_bind (os_path_makedirs usrdir) (\<lambda>_. io_return True))
                         (\<lambda>e. case e of
                                 OSError n \<Rightarrow>
                                   if n \<noteq> EEXIST
                                   then io_bind (kw_msg ''failed (mkdir)!\<newline>'') (\<lambda>_.
                                        io_return False)
                                   else io_return True
                               | _ \<Rightarrow> io_raise e)
                  else io_return True) (\<lambda>go_on.
         if \<not> go_on then io_return False
         else
           io_bind (io_try (io_bind (shutil_copy src dst) (\<lambda>_. io_return True))
                      (\<lambda>e. io_bind (kw_msg ''failed (copy)!\<newline>'') (\<lambda>_. io_return False)))
             (\<lambda>copied.
           if \<not> copied then io_return False
           else
             io_bind (kw_msg ''done!\<newline>'') (\<lambda>_.
             io_return True))))))))))"

subsection \<open>The version check\<close>

text \<open>The loop \<^verbatim>\<open>for i in xrange(count)\<close> over the indices \<open>[0..<count]\<close>; \<open>count\<close> is at
  most the length of either list, so every index is in range. \<^verbatim>\<open>int(kv[i])\<close> is
  evaluated before \<^verbatim>\<open>int(rv[i])\<close>.\<close>

fun version_loop :: "string list \<Rightarrow> string list \<Rightarrow> nat list \<Rightarrow> py_error + bool" where
  "version_loop kv rv [] = Inr True"
| "version_loop kv rv (i # rest) =
     (case py_int (kv ! i) of
        Inl e \<Rightarrow> Inl e
      | Inr k \<Rightarrow>
          (case py_int (rv ! i) of
             Inl e \<Rightarrow> Inl e
           | Inr r \<Rightarrow> if k < r then Inr False else version_loop kv rv rest))"

definition is_ida_version :: "string \<Rightarrow> bool io" where
  "is_ida_version requested =
     (let rv = py_split requested (CHR ''.'') in
      io_bind kw_get_kernel_version (\<lambda>kernel.
      let kv = py_split kernel (CHR ''.'');
          count = min (length rv) (length kv)
      in if count = 0 then io_return False
         else io_lift (version_loop kv rv [0..<count])))"

definition is_compatible :: "bool io" where
  "is_compatible =
     (let min_ida_ver = ''7.3'' in
      io_bind (is_ida_version min_ida_ver) (\<lambda>v.
      if v then hr_init_hexrays_plugin else io_return False))"

subsection \<open>The printer and the viewer\<close>

text \<open>\<^verbatim>\<open>printer_t\<close>: the object whose \<^verbatim>\<open>_print\<close> method the host calls once per line
  of a microcode dump.\<close>

record printer_t =
  mc :: "string list"

definition printer_init :: printer_t where
  "printer_init = \<lparr>mc = []\<rparr>"

definition get_mc :: "printer_t \<Rightarrow> string list" where
  "get_mc self = mc self"

definition printer_print :: "printer_t \<Rightarrow> int \<Rightarrow> string \<Rightarrow> printer_t \<times> int" where
  "printer_print self indent line = (self\<lparr>mc := mc self @ [line]\<rparr>, 1)"

text \<open>\<^verbatim>\<open>mba.set_mba_flags(f)\<close> ors \<open>f\<close> into the block's flag word; \<^verbatim>\<open>mba._print(vp)\<close>
  calls \<^verbatim>\<open>vp._print(indent, line)\<close> for each line of the dump, in order.\<close>

definition mba_set_mba_flags :: "mba_t \<Rightarrow> int \<Rightarrow> mba_t io" where
  "mba_set_mba_flags mba f =
     host_call (Mba_set_mba_flags f) (\<lambda>h. mba\<lparr>mba_flags := mba_flags mba OR f\<rparr>)"

definition callbacks :: "printer_t \<Rightarrow> (int \<times> string) list \<Rightarrow> printer_t" where
  "callbacks vp calls = foldl (\<lambda>p (indent, line). fst (printer_print p indent line)) vp calls"

definition mba_print :: "mba_t \<Rightarrow> printer_t \<Rightarrow> printer_t io" where
  "mba_print mba vp = host_call Mba_print (\<lambda>h. callbacks vp (mba_dump mba (mba_flags mba)))"

fun AddLines :: "string list \<Rightarrow> unit io" where
  "AddLines [] = io_return ()"
| "AddLines (line # rest) =
     io_bind (host_call (Viewer_AddLine line) (\<lambda>h. ())) (\<lambda>_. AddLines rest)"

definition microcode_viewer_Create :: "string \<Rightarrow> string list \<Rightarrow> bool io" where
  "microcode_viewer_Create title0 lines =
     (let title = ''Microcode: '' @ title0 in
      io_bind (host_call (Viewer_Create title) viewer_ok) (\<lambda>created.
      if \<not> created then io_return False
      else io_bind (AddLines lines) (\<lambda>_. io_return True)))"

definition microcode_viewer_Show :: "unit io" where
  "microcode_viewer_Show = host_call Viewer_Show (\<lambda>h. ())"

subsection \<open>The maturity dialog\<close>

definition maturity_levels :: "(string \<times> mmat_t) list" where
  "maturity_levels =
     [(''MMAT_GENERATED'', MMAT_GENERATED),
      (''MMAT_PREOPTIMIZED'', MMAT_PREOPTIMIZED),
      (''MMAT_LOCOPT'', MMAT_LOCOPT),
      (''MMAT_CALLS'', MMAT_CALLS),
      (''MMAT_GLBOPT1'', MMAT_GLBOPT1),
      (''MMAT_GLBOPT2'', MMAT_GLBOPT2),
      (''MMAT_GLBOPT3'', MMAT_GLBOPT3),
      (''MMAT_LVARS'', MMAT_LVARS)]"

definition MaturityForm :: form_t where
  "MaturityForm =
     \<lparr>form_template =
        wanted_name @ ''\<newline>''
        @ ''             <Maturity level:{mat_lvl}>\<newline>\<newline>\<newline>\<newline>''
        @ ''             <##MBA Flags##MBA_SHORT:{flags_short}>{chkgroup_flags}>\<newline>''
        @ ''             '',
      mat_lvl_items = map fst maturity_levels,
      chkgroup_flags = [''flags_short'']\<rparr>"

text \<open>\<^verbatim>\<open>form.mat_lvl.value\<close> and \<^verbatim>\<open>form.flags_short.checked\<close> are what the host left in
  the form's controls; \<^verbatim>\<open>flags_short\<close> is read whether or not the form was accepted.\<close>

definition ask_desired_maturity :: "(string option \<times> mmat_t option \<times> int) io" where
  "ask_desired_maturity =
     (let form = MaturityForm in
      io_bind (host_call (Form_Compile form) (\<lambda>h. ())) (\<lambda>_.
      io_bind (host_call Form_Execute form_ok) (\<lambda>ok.
      io_bind (if ok = 1
               then io_bind (io_read form_mat_lvl) (\<lambda>v.
                    io_bind (io_lift (py_index maturity_levels v)) (\<lambda>(text, mmat).
                    io_return (Some text, Some mmat)))
               else io_return (None, None)) (\<lambda>(text, mmat).
      io_bind (io_read form_flags_short) (\<lambda>checked.
      io_bind (io_read MBA_SHORT) (\<lambda>short.
      let flags = 0 OR (if checked then short else 0) in
      io_bind (host_call Form_Free (\<lambda>h. ())) (\<lambda>_.
      io_return (text, mmat, flags))))))))"

subsection \<open>Generating and showing microcode\<close>

text \<open>\<^verbatim>\<open>"%s" % text\<close>: the string itself, or \<^verbatim>\<open>None\<close> printed.\<close>

definition fmt_s :: "string option \<Rightarrow> string" where
  "fmt_s text = (case text of None \<Rightarrow> ''None'' | Some t \<Rightarrow> t)"

text \<open>\<^verbatim>\<open>addr_fmt\<close> is \<^verbatim>\<open>"%016x"\<close> or \<^verbatim>\<open>"%08x"\<close>; the model keeps its width.\<close>

definition show_microcode :: "(bool \<times> string) io" where
  "show_microcode =
     io_bind kw_read_range_selection (\<lambda>(sel, sea0, eea0).
     io_bind kw_get_screen_ea (\<lambda>ea.
     io_bind (ida_funcs_get_func ea) (\<lambda>pfn.
     if \<not> sel \<and> pfn = None
     then io_return (False, ''Position cursor within a function or select range'')
     else
       let sea = (if \<not> sel then (case pfn of Some f \<Rightarrow> start_ea f | None \<Rightarrow> sea0) else sea0);
           eea = (if \<not> sel then (case pfn of Some f \<Rightarrow> end_ea f | None \<Rightarrow> eea0) else eea0)
       in
       io_bind ida_ida_inf_is_64bit (\<lambda>is64.
       let addr_fmt = (if is64 then 16 else 8) in
       io_bind (ida_bytes_get_flags sea) (\<lambda>F.
       io_bind (ida_bytes_is_code F) (\<lambda>code.
       if \<not> code
       then io_return (False, ''The selected range must start with an instruction'')
       else
         io_bind ask_desired_maturity (\<lambda>(text, mmat, flags).
         if text = None \<and> mmat = None then io_return (True, ''Cancelled'')
         else
           io_bind (io_read DECOMP_WARNINGS) (\<lambda>warnings.
           io_bind (hr_gen_microcode sea eea warnings mmat) (\<lambda>generated.
           case generated of
             Inl hf \<Rightarrow>
               io_return (False, ''0x'' @ fmt_0x addr_fmt (errea hf) @ '': '' @ str hf)
           | Inr mba0 \<Rightarrow>
               let vp = printer_init in
               io_bind (mba_set_mba_flags mba0 flags) (\<lambda>mba.
               io_bind (mba_print mba vp) (\<lambda>vp.
               io_bind (microcode_viewer_Create
                          (''0x'' @ fmt_0x addr_fmt sea @ ''-0x'' @ fmt_0x addr_fmt eea
                           @ '' ('' @ fmt_s text @ '')'')
                          (get_mc vp)) (\<lambda>created.
               if \<not> created then io_return (False, ''Error creating viewer'')
               else
                 io_bind microcode_viewer_Show (\<lambda>_.
                 io_return
                   (True,
                    ''Successfully generated microcode for 0x'' @ fmt_0x addr_fmt sea
                    @ ''..0x'' @ fmt_0x addr_fmt eea))))))))))))))"

subsection \<open>Entry points\<close>

definition create_mc_widget :: "bool io" where
  "create_mc_widget =
     io_bind is_compatible (\<lambda>compatible.
     if \<not> compatible
     then io_bind (kw_msg (wanted_name @ '': Unsupported IDA / Hex-rays version\<newline>'')) (\<lambda>_.
          io_return False)
     else
       io_bind show_microcode (\<lambda>(success, message).
       let output = (if success then kw_msg else kw_warning) in
       io_bind (output (wanted_name @ '': '' @ message @ ''\<newline>'')) (\<lambda>_.
       io_return success)))"

definition genmc_init :: "plugin_rc io" where
  "genmc_init =
     io_bind is_compatible (\<lambda>compatible.
     io_return (if compatible then PLUGIN_OK else PLUGIN_SKIP))"

definition genmc_run :: "unit io" where
  "genmc_run = io_bind create_mc_widget (\<lambda>_. io_return ())"

subsection \<open>A sample session\<close>

text \<open>A host on which the script is run as a script: a 32-bit database, the cursor in
  a function at \<open>0x401000\<close>, no selection, the decompiler present, the user directory
  without a \<^verbatim>\<open>plugins\<close> folder yet. The concrete runs below start from it.\<close>

definition sample_host :: host where
  "sample_host =
     \<lparr>py_name = ''__main__'',
      py_file = ''/tmp/genmc.py'',
      fs_files = [''/tmp/genmc.py'' \<mapsto> ''# genmc''],
      fs_dirs = {''/tmp'', ''/home/u/.idapro''},
      user_idadir = ''/home/u/.idapro'',
      ask_yn_reply = ASKBTN_YES,
      kernel_version = ''7.4'',
      hexrays_present = True,
      range_selection = (False, -1, -1),
      screen_ea = 0x401000,
      funcs = (\<lambda>ea. if 0x401000 \<le> ea \<and> ea < 0x401020
                      then Some \<lparr>start_ea = 0x401000, end_ea = 0x401020\<rparr> else None),
      inf_64bit = False,
      byte_flags = (\<lambda>ea. if ea = 0x401000 then 0x600 else 0),
      code_flags = (\<lambda>F. F = 0x600),
      form_ok = 1,
      form_mat_lvl = 2,
      form_flags_short = True,
      MBA_SHORT = 0x200,
      DECOMP_WARNINGS = 8,
      microcode = (\<lambda>sea eea fl mmat.
                     Inr \<lparr>mba_flags = 0, mba_dump = (\<lambda>f. [(0, ''1. 0 mov eax, ebx''), (0, ''1. 1 ret'')])\<rparr>),
      viewer_ok = True,
      trace = []\<rparr>"

subsection \<open>The range a run works on\<close>

text \<open>\<^verbatim>\<open>show_microcode\<close> works on the selected range when there is a selection, and
  otherwise on the range of the function under the cursor; with neither there is no
  range.\<close>

definition chosen_range :: "host \<Rightarrow> (int \<times> int) option" where
  "chosen_range h =
     (case range_selection h of
        (sel, sea, eea) \<Rightarrow>
          if sel then Some (sea, eea)
          else (case funcs h (screen_ea h) of
                  Some f \<Rightarrow> Some (start_ea f, end_ea f)
                | None \<Rightarrow> None))"

subsection \<open>Reading a trace\<close>

text \<open>The host calls \<^verbatim>\<open>show_microcode\<close> makes up to and including the test of the start
  address, and the calls of one run of the maturity dialog.\<close>

definition prologue :: "host \<Rightarrow> int \<Rightarrow> event list" where
  "prologue h sea =
     [Kw_read_range_selection, Kw_get_screen_ea, Funcs_get_func (screen_ea h),
      Ida_inf_is_64bit, Bytes_get_flags sea, Bytes_is_code (byte_flags h sea)]"

definition dialog :: "event list" where
  "dialog = [Form_Compile MaturityForm, Form_Execute, Form_Free]"

text \<open>Kinds of events: output on the info or warning channel, the modal dialog, the
  microcode generator, the viewer.\<close>

fun is_log :: "event \<Rightarrow> bool" where
  "is_log (Kw_msg s) = True"
| "is_log (Kw_warning s) = True"
| "is_log e = False"

fun shows_dialog :: "event \<Rightarrow> bool" where
  "shows_dialog Form_Execute = True"
| "shows_dialog e = False"

fun calls_generator :: "event \<Rightarrow> bool" where
  "calls_generator (Hr_gen_microcode sea eea fl mmat) = True"
| "calls_generator e = False"

fun uses_viewer :: "event \<Rightarrow> bool" where
  "uses_viewer (Viewer_Create title) = True"
| "uses_viewer (Viewer_AddLine line) = True"
| "uses_viewer Viewer_Show = True"
| "uses_viewer e = False"

text \<open>The characters of a lower-case hexadecimal numeral.\<close>

definition is_hex_digit :: "char \<Rightarrow> bool" where
  "is_hex_digit c = (c \<in> set ''0123456789abcdef'')"

text \<open>What a run that reaches the viewer passes on: the flag word of the dialog, the
  title of the viewer, and the lines of the block's dump.\<close>

definition dialog_flags :: "host \<Rightarrow> int" where
  "dialog_flags h = (if form_flags_short h then MBA_SHORT h else 0)"

definition addr_width :: "host \<Rightarrow> nat" where
  "addr_width h = (if inf_64bit h then 16 else 8)"

definition viewer_title :: "host \<Rightarrow> int \<Rightarrow> int \<Rightarrow> string \<Rightarrow> string" where
  "viewer_title h sea eea text =
     ''Microcode: 0x'' @ fmt_0x (addr_width h) sea @ ''-0x'' @ fmt_0x (addr_width h) eea
     @ '' ('' @ text @ '')''"

definition dump_lines :: "host \<Rightarrow> mba_t \<Rightarrow> string list" where
  "dump_lines h mba = map snd (mba_dump mba (mba_flags mba OR dialog_flags h))"

subsection \<open>Further sample sessions\<close>

text \<open>The sample host with a generator that fails and leaves the host's "no address"
  value of a 64-bit address type in the failure object, while the database is 32-bit.\<close>

definition failing_host :: host where
  "failing_host =
     sample_host\<lparr>microcode :=
       (\<lambda>sea eea fl mmat. Inl \<lparr>errea = 0xFFFFFFFFFFFFFFFF, str = ''decompilation failed''\<rparr>)\<rparr>"

section \<open>Properties\<close>

subsection \<open>Running computations\<close>

lemmas io_defs = io_bind_def io_return_def io_raise_def io_try_def io_lift_def io_read_def
  host_call_def

subsection \<open>The version check compares component by component\<close>

lemma py_split_not_Nil: "py_split s sep \<noteq> []"
  by (induction s) (auto split: list.splits)

lemma count_not_0:
  "(min (length (py_split a s)) (length (py_split b t)) = 0) = False"
  by (cases "py_split a s"; cases "py_split b t"; simp add: py_split_not_Nil)

lemma version_loop_True:
  "version_loop kv rv idxs = Inr True \<longleftrightarrow>
     (\<forall>i\<in>set idxs. \<exists>k r. py_int (kv ! i) = Inr k \<and> py_int (rv ! i) = Inr r \<and> r \<le> k)"
  by (induction idxs) (auto split: sum.splits)

lemma version_loop_upt:
  "version_loop kv rv [0..<n] = Inr True \<longleftrightarrow>
     (\<forall>i<n. \<exists>k r. py_int (kv ! i) = Inr k \<and> py_int (rv ! i) = Inr r \<and> r \<le> k)"
  by (auto simp: version_loop_True)

lemma is_ida_version_loop:
  "fst (is_ida_version requested h) =
     version_loop (py_split (kernel_version h) (CHR ''.'')) (py_split requested (CHR ''.''))
       [0..<min (length (py_split requested (CHR ''.'')))
                (length (py_split (kernel_version h) (CHR ''.'')))]"
  by (simp add: is_ida_version_def kw_get_kernel_version_def io_bind_def
        host_call_def io_lift_def Let_def count_not_0)

text \<open>
  Claim C8. \<^verbatim>\<open>is_ida_version\<close> returns True exactly when each of the compared dotted
  components (as many as the shorter of the two version strings has) parses as a number
  and the kernel's component is at least the requested one; the components are compared
  one by one, not as a version. So the kernel \<^verbatim>\<open>8.2\<close> is rejected against the minimum
  \<^verbatim>\<open>7.3\<close>: its second component 2 is below 3.
\<close>

theorem is_ida_version_componentwise:
  "(fst (is_ida_version requested h) = Inr True \<longleftrightarrow>
      (\<forall>i < min (length (py_split requested (CHR ''.'')))
                (length (py_split (kernel_version h) (CHR ''.''))).
         \<exists>k r. py_int (py_split (kernel_version h) (CHR ''.'') ! i) = Inr k
              \<and> py_int (py_split requested (CHR ''.'') ! i) = Inr r
              \<and> r \<le> k))
   \<and> (kernel_version h = ''8.2'' \<longrightarrow> fst (is_ida_version ''7.3'' h) = Inr False)"
proof
  show "fst (is_ida_version requested h) = Inr True \<longleftrightarrow>
      (\<forall>i < min (length (py_split requested (CHR ''.'')))
                (length (py_split (kernel_version h) (CHR ''.''))).
         \<exists>k r. py_int (py_split (kernel_version h) (CHR ''.'') ! i) = Inr k
              \<and> py_int (py_split requested (CHR ''.'') ! i) = Inr r
              \<and> r \<le> k)"
    by (simp only: is_ida_version_loop version_loop_upt)
next
  have "version_loop (py_split ''8.2'' (CHR ''.'')) (py_split ''7.3'' (CHR ''.''))
          [0..<min (length (py_split ''7.3'' (CHR ''.''))) (length (py_split ''8.2'' (CHR ''.'')))]
        = Inr False"
    by code_simp
  then show "kernel_version h = ''8.2'' \<longrightarrow> fst (is_ida_version ''7.3'' h) = Inr False"
    by (simp only: is_ida_version_loop) simp
qed

theorem is_ida_version_componentwise_witness:
  "fst (is_ida_version ''7.3'' (sample_host\<lparr>kernel_version := ''7.4''\<rparr>)) = Inr True
   \<and> py_int ''7'' = Inr 7 \<and> py_int ''4'' = Inr 4 \<and> py_int ''3'' = Inr 3
   \<and> fst (is_ida_version ''7.3'' (sample_host\<lparr>kernel_version := ''8.2''\<rparr>)) = Inr False"
proof -
  have a: "fst (is_ida_version ''7.3'' (sample_host\<lparr>kernel_version := ''7.4''\<rparr>)) = Inr True"
    by code_simp
  have b: "py_int ''7'' = Inr 7 \<and> py_int ''4'' = Inr 4 \<and> py_int ''3'' = Inr 3"
    by code_simp
  have c: "kernel_version (sample_host\<lparr>kernel_version := ''8.2''\<rparr>) = ''8.2''"
    by simp
  from is_ida_version_componentwise [of "''7.3''" "sample_host\<lparr>kernel_version := ''8.2''\<rparr>"] c
  have "fst (is_ida_version ''7.3'' (sample_host\<lparr>kernel_version := ''8.2''\<rparr>)) = Inr False"
    by blast
  with a b show ?thesis by blast
qed

subsection \<open>The printer\<close>

lemma callbacks_mc: "mc (callbacks vp calls) = mc vp @ map snd calls"
  unfolding callbacks_def
  by (induction calls arbitrary: vp) (auto simp: printer_print_def)

text \<open>
  Claim C6. A fresh \<^verbatim>\<open>printer_t\<close> holds no lines. Each \<^verbatim>\<open>_print(indent, line)\<close>
  appends exactly \<open>line\<close> to the list and returns 1. After any sequence of callbacks,
  \<^verbatim>\<open>get_mc\<close> is the list of the printed lines in the order of the calls, one string per
  call; this is what \<^verbatim>\<open>mba._print(vp)\<close> leaves in the printer for the block's dump.
\<close>

theorem printer_collects_lines:
  "get_mc printer_init = []
   \<and> printer_print self indent line = (self\<lparr>mc := get_mc self @ [line]\<rparr>, 1)
   \<and> get_mc (callbacks printer_init calls) = map snd calls
   \<and> length (get_mc (callbacks printer_init calls)) = length calls
   \<and> fst (mba_print mba printer_init h) = Inr (callbacks printer_init (mba_dump mba (mba_flags mba)))"
  by (simp add: get_mc_def printer_init_def printer_print_def callbacks_mc mba_print_def host_call_def)

subsection \<open>The maturity dialog\<close>

lemma length_maturity_levels: "length maturity_levels = 8"
  by (simp add: maturity_levels_def)


lemma ask_desired_maturity_cancel:
  "form_ok h \<noteq> 1 \<Longrightarrow>
   ask_desired_maturity h =
     (Inr (None, None, if form_flags_short h then MBA_SHORT h else 0),
      h\<lparr>trace := trace h @ [Form_Compile MaturityForm, Form_Execute, Form_Free]\<rparr>)"
  by (simp add: ask_desired_maturity_def io_defs Let_def)

lemma ask_desired_maturity_ok:
  "form_ok h = 1 \<Longrightarrow> py_index maturity_levels (form_mat_lvl h) = Inr (text, mmat) \<Longrightarrow>
   ask_desired_maturity h =
     (Inr (Some text, Some mmat, if form_flags_short h then MBA_SHORT h else 0),
      h\<lparr>trace := trace h @ [Form_Compile MaturityForm, Form_Execute, Form_Free]\<rparr>)"
  by (simp add: ask_desired_maturity_def io_defs Let_def)

lemma ask_desired_maturity_raise:
  "form_ok h = 1 \<Longrightarrow> py_index maturity_levels (form_mat_lvl h) = Inl e \<Longrightarrow>
   ask_desired_maturity h =
     (Inl e, h\<lparr>trace := trace h @ [Form_Compile MaturityForm, Form_Execute]\<rparr>)"
  by (simp add: ask_desired_maturity_def io_defs Let_def)



subsection \<open>The paths through \<^verbatim>\<open>show_microcode\<close>\<close>

lemma chosen_range_trace [simp]: "chosen_range (h\<lparr>trace := t\<rparr>) = chosen_range h"
  by (cases "range_selection h") (simp add: chosen_range_def)

lemmas host_fun_defs = kw_read_range_selection_def
        kw_get_screen_ea_def ida_funcs_get_func_def ida_ida_inf_is_64bit_def
        ida_bytes_get_flags_def ida_bytes_is_code_def hr_gen_microcode_def

lemma chosen_range_None:
  "chosen_range h = None \<Longrightarrow>
     \<exists>a b. range_selection h = (False, a, b) \<and> funcs h (screen_ea h) = None"
  by (cases "range_selection h") (auto simp: chosen_range_def split: if_splits option.splits)

lemma chosen_range_Some:
  "chosen_range h = Some (sea, eea) \<Longrightarrow>
     range_selection h = (True, sea, eea)
     \<or> (\<exists>a b f. range_selection h = (False, a, b) \<and> funcs h (screen_ea h) = Some f
                \<and> start_ea f = sea \<and> end_ea f = eea)"
  by (cases "range_selection h") (auto simp: chosen_range_def split: if_splits option.splits)

lemma show_microcode_no_range:
  assumes "chosen_range h = None"
  shows "show_microcode h =
     (Inr (False, ''Position cursor within a function or select range''),
      h\<lparr>trace := trace h @ [Kw_read_range_selection, Kw_get_screen_ea,
                               Funcs_get_func (screen_ea h)]\<rparr>)"
proof -
  from chosen_range_None [OF assms] obtain a b
    where "range_selection h = (False, a, b)" "funcs h (screen_ea h) = None"
    by blast
  then show ?thesis
    by (simp add: show_microcode_def io_defs host_fun_defs)
qed

lemma show_microcode_not_code:
  assumes "chosen_range h = Some (sea, eea)" and "\<not> code_flags h (byte_flags h sea)"
  shows "show_microcode h =
     (Inr (False, ''The selected range must start with an instruction''),
      h\<lparr>trace := trace h @ prologue h sea\<rparr>)"
  using chosen_range_Some [OF assms(1)] assms(2)
  by (elim disjE exE conjE)
     (simp_all add: show_microcode_def io_defs host_fun_defs Let_def prologue_def)

lemma show_microcode_cancel:
  assumes "chosen_range h = Some (sea, eea)" and "code_flags h (byte_flags h sea)"
    and "form_ok h \<noteq> 1"
  shows "show_microcode h =
     (Inr (True, ''Cancelled''), h\<lparr>trace := trace h @ prologue h sea @ dialog\<rparr>)"
  using chosen_range_Some [OF assms(1)] assms(2,3)
  by (elim disjE exE conjE)
     (simp_all add: show_microcode_def io_defs host_fun_defs Let_def prologue_def dialog_def
        ask_desired_maturity_cancel)

lemma show_microcode_index_error:
  assumes "chosen_range h = Some (sea, eea)" and "code_flags h (byte_flags h sea)"
    and "form_ok h = 1" and "py_index maturity_levels (form_mat_lvl h) = Inl e"
  shows "show_microcode h =
     (Inl e, h\<lparr>trace := trace h @ prologue h sea @ [Form_Compile MaturityForm, Form_Execute]\<rparr>)"
  using chosen_range_Some [OF assms(1)] assms(2,3,4)
  by (elim disjE exE conjE)
     (simp_all add: show_microcode_def io_defs host_fun_defs Let_def prologue_def dialog_def
        ask_desired_maturity_raise)

lemma show_microcode_gen_failed:
  assumes "chosen_range h = Some (sea, eea)" and "code_flags h (byte_flags h sea)"
    and "form_ok h = 1" and "py_index maturity_levels (form_mat_lvl h) = Inr (text, mmat)"
    and "microcode h sea eea (DECOMP_WARNINGS h) (Some mmat) = Inl hf"
  shows "show_microcode h =
     (Inr (False, ''0x'' @ fmt_0x (if inf_64bit h then 16 else 8) (errea hf) @ '': '' @ str hf),
      h\<lparr>trace := trace h @ prologue h sea @ dialog
                  @ [Hr_gen_microcode sea eea (DECOMP_WARNINGS h) (Some mmat)]\<rparr>)"
  using chosen_range_Some [OF assms(1)] assms(2,3,4,5)
  by (elim disjE exE conjE)
     (simp_all add: show_microcode_def io_defs host_fun_defs Let_def prologue_def dialog_def
        ask_desired_maturity_ok)

lemma AddLines_run:
  "AddLines lines h = (Inr (), h\<lparr>trace := trace h @ map Viewer_AddLine lines\<rparr>)"
  by (induction lines arbitrary: h) (simp_all add: io_defs)

lemmas viewer_defs = mba_set_mba_flags_def mba_print_def microcode_viewer_Create_def
  microcode_viewer_Show_def dialog_flags_def addr_width_def viewer_title_def dump_lines_def
  fmt_s_def get_mc_def callbacks_mc printer_init_def

lemma show_microcode_viewer_failed:
  assumes "chosen_range h = Some (sea, eea)" and "code_flags h (byte_flags h sea)"
    and "form_ok h = 1" and "py_index maturity_levels (form_mat_lvl h) = Inr (text, mmat)"
    and "microcode h sea eea (DECOMP_WARNINGS h) (Some mmat) = Inr mba"
    and "\<not> viewer_ok h"
  shows "show_microcode h =
     (Inr (False, ''Error creating viewer''),
      h\<lparr>trace := trace h @ prologue h sea @ dialog
                  @ [Hr_gen_microcode sea eea (DECOMP_WARNINGS h) (Some mmat),
                     Mba_set_mba_flags (dialog_flags h), Mba_print,
                     Viewer_Create (viewer_title h sea eea text)]\<rparr>)"
  using chosen_range_Some [OF assms(1)] assms(2,3,4,5,6)
  by (elim disjE exE conjE)
     (simp_all add: show_microcode_def io_defs host_fun_defs Let_def prologue_def dialog_def
        ask_desired_maturity_ok viewer_defs)

lemma show_microcode_shown:
  assumes "chosen_range h = Some (sea, eea)" and "code_flags h (byte_flags h sea)"
    and "form_ok h = 1" and "py_index maturity_levels (form_mat_lvl h) = Inr (text, mmat)"
    and "microcode h sea eea (DECOMP_WARNINGS h) (Some mmat) = Inr mba"
    and "viewer_ok h"
  shows "show_microcode h =
     (Inr (True, ''Successfully generated microcode for 0x''
                 @ fmt_0x (addr_width h) sea @ ''..0x'' @ fmt_0x (addr_width h) eea),
      h\<lparr>trace := trace h @ prologue h sea @ dialog
                  @ [Hr_gen_microcode sea eea (DECOMP_WARNINGS h) (Some mmat),
                     Mba_set_mba_flags (dialog_flags h), Mba_print,
                     Viewer_Create (viewer_title h sea eea text)]
                  @ map Viewer_AddLine (dump_lines h mba) @ [Viewer_Show]\<rparr>)"
  using chosen_range_Some [OF assms(1)] assms(2,3,4,5,6)
  by (elim disjE exE conjE)
     (simp_all add: show_microcode_def io_defs host_fun_defs Let_def prologue_def dialog_def
        ask_desired_maturity_ok viewer_defs AddLines_run)

lemma filter_map_AddLine [simp]:
  "filter is_log (map Viewer_AddLine lines) = []"
  "filter calls_generator (map Viewer_AddLine lines) = []"
  "filter shows_dialog (map Viewer_AddLine lines) = []"
  by (induction lines) simp_all

text \<open>Every run of \<^verbatim>\<open>show_microcode\<close> starts by reading the selection, logs nothing
  itself and changes nothing of the host but the trace.\<close>

lemma show_microcode_run:
  "snd (show_microcode h) = h\<lparr>trace := trace h @ events_of show_microcode h\<rparr>
   \<and> take 1 (events_of show_microcode h) = [Kw_read_range_selection]
   \<and> filter is_log (events_of show_microcode h) = []"
proof (cases "chosen_range h")
  case None
  then show ?thesis by (simp add: show_microcode_no_range events_of_def)
next
  case (Some range)
  obtain sea eea where range: "chosen_range h = Some (sea, eea)"
    using Some by (cases range) simp
  show ?thesis
  proof (cases "code_flags h (byte_flags h sea)")
    case False
    with range show ?thesis by (simp add: show_microcode_not_code prologue_def events_of_def)
  next
    case code: True
    show ?thesis
    proof (cases "form_ok h = 1")
      case False
      with range code show ?thesis
        by (simp add: show_microcode_cancel prologue_def events_of_def dialog_def)
    next
      case ok: True
      show ?thesis
      proof (cases "py_index maturity_levels (form_mat_lvl h)")
        case (Inl e)
        with range code ok show ?thesis
          by (simp add: show_microcode_index_error prologue_def events_of_def)
      next
        case (Inr level)
        obtain name mmat where level: "py_index maturity_levels (form_mat_lvl h) = Inr (name, mmat)"
          using Inr by (cases level) simp
        show ?thesis
        proof (cases "microcode h sea eea (DECOMP_WARNINGS h) (Some mmat)")
          case (Inl hf)
          with range code ok level show ?thesis
            by (simp add: show_microcode_gen_failed prologue_def events_of_def dialog_def)
        next
          case (Inr mba)
          with range code ok level show ?thesis
            by (cases "viewer_ok h")
               (simp_all add: show_microcode_viewer_failed show_microcode_shown
                  prologue_def events_of_def dialog_def)
        qed
      qed
    qed
  qed
qed

lemma py_index_in_range:
  "- int (length xs) \<le> i \<Longrightarrow> i < int (length xs) \<Longrightarrow> \<exists>x. py_index xs i = Inr x"
  by (auto simp: py_index_def)

lemma py_index_Inl: "py_index xs i = Inl e \<Longrightarrow> e = IndexError"
  by (auto simp: py_index_def split: if_splits)

lemma show_microcode_returns:
  assumes "form_ok h \<noteq> 1 \<or> (- 8 \<le> form_mat_lvl h \<and> form_mat_lvl h < 8)"
  shows "\<exists>flag message. fst (show_microcode h) = Inr (flag, message)"
proof (cases "chosen_range h")
  case None
  then show ?thesis by (auto simp: show_microcode_no_range)
next
  case (Some range)
  obtain sea eea where range: "chosen_range h = Some (sea, eea)"
    using Some by (cases range) simp
  show ?thesis
  proof (cases "code_flags h (byte_flags h sea)")
    case False
    with range show ?thesis by (auto simp: show_microcode_not_code)
  next
    case code: True
    show ?thesis
    proof (cases "form_ok h = 1")
      case False
      with range code show ?thesis
        by (auto simp: show_microcode_cancel)
    next
      case ok: True
      with assms have "- 8 \<le> form_mat_lvl h \<and> form_mat_lvl h < 8"
        by simp
      then obtain level where "py_index maturity_levels (form_mat_lvl h) = Inr level"
        using py_index_in_range [of maturity_levels "form_mat_lvl h"]
        by (auto simp: length_maturity_levels)
      then obtain name mmat where level: "py_index maturity_levels (form_mat_lvl h) = Inr (name, mmat)"
        by (cases level) simp
      show ?thesis
      proof (cases "microcode h sea eea (DECOMP_WARNINGS h) (Some mmat)")
        case (Inl hf)
        with range code ok level show ?thesis
          by (auto simp: show_microcode_gen_failed)
      next
        case (Inr mba)
        with range code ok level show ?thesis
          by (cases "viewer_ok h")
             (auto simp: show_microcode_viewer_failed show_microcode_shown)
      qed
    qed
  qed
qed

lemma py_index_out_of_range:
  "\<not> (- int (length xs) \<le> i \<and> i < int (length xs)) \<Longrightarrow> py_index xs i = Inl IndexError"
  by (auto simp: py_index_def)

text \<open>The only exception \<^verbatim>\<open>show_microcode\<close> raises is the IndexError of the list access.\<close>

lemma show_microcode_outcome:
  "(\<exists>flag message. fst (show_microcode h) = Inr (flag, message))
   \<or> fst (show_microcode h) = Inl IndexError"
proof (cases "form_ok h \<noteq> 1 \<or> (- 8 \<le> form_mat_lvl h \<and> form_mat_lvl h < 8)")
  case True
  then show ?thesis using show_microcode_returns by blast
next
  case False
  then have ok: "form_ok h = 1"
    by simp
  from False have raised: "py_index maturity_levels (form_mat_lvl h) = Inl IndexError"
    by (intro py_index_out_of_range) (simp add: length_maturity_levels)
  show ?thesis
  proof (cases "chosen_range h")
    case None
    then show ?thesis by (auto simp: show_microcode_no_range)
  next
    case (Some range)
    obtain sea eea where range: "chosen_range h = Some (sea, eea)"
      using Some by (cases range) simp
    show ?thesis
    proof (cases "code_flags h (byte_flags h sea)")
      case False
      with range show ?thesis by (auto simp: show_microcode_not_code)
    next
      case True
      with range ok raised show ?thesis
        by (simp add: show_microcode_index_error)
    qed
  qed
qed

subsection \<open>The compatibility check\<close>

lemma is_ida_version_run:
  "is_ida_version requested h =
     (version_loop (py_split (kernel_version h) (CHR ''.'')) (py_split requested (CHR ''.''))
        [0..<min (length (py_split requested (CHR ''.'')))
                 (length (py_split (kernel_version h) (CHR ''.'')))],
      h\<lparr>trace := trace h @ [Kw_get_kernel_version]\<rparr>)"
  by (simp add: is_ida_version_def kw_get_kernel_version_def io_defs Let_def count_not_0)

lemma is_compatible_run:
  "snd (is_compatible h) = h\<lparr>trace := trace h @ events_of is_compatible h\<rparr>
   \<and> list_all (\<lambda>e. e = Kw_get_kernel_version \<or> e = Hr_init_hexrays_plugin)
         (events_of is_compatible h)"
  by (simp add: is_compatible_def is_ida_version_run io_bind_def io_return_def host_call_def
        hr_init_hexrays_plugin_def events_of_def split: sum.splits)

lemma create_mc_widget_compatible:
  assumes "is_compatible h = (Inr True, h1)" and "show_microcode h1 = (Inr (flag, message), h2)"
  shows "create_mc_widget h =
     (Inr flag,
      h2\<lparr>trace := trace h2 @ [if flag then Kw_msg (''genmc: '' @ message @ ''\<newline>'')
                                else Kw_warning (''genmc: '' @ message @ ''\<newline>'')]\<rparr>)"
  using assms
  by (simp add: create_mc_widget_def io_defs kw_msg_def kw_warning_def wanted_name_def)

lemma create_mc_widget_raises:
  assumes "is_compatible h = (Inr True, h1)" and "show_microcode h1 = (Inl e, h2)"
  shows "create_mc_widget h = (Inl e, h2)"
  using assms by (simp add: create_mc_widget_def io_bind_def)

lemma create_mc_widget_incompatible_run:
  assumes "is_compatible h = (Inr False, h1)"
  shows "create_mc_widget h =
     (Inr False,
      h1\<lparr>trace := trace h1 @ [Kw_msg ''genmc: Unsupported IDA / Hex-rays version\<newline>'']\<rparr>)"
  using assms
  by (simp add: create_mc_widget_def io_defs kw_msg_def wanted_name_def)

lemma version_events_quiet:
  assumes "list_all (\<lambda>e. e = Kw_get_kernel_version \<or> e = Hr_init_hexrays_plugin) evs"
  shows "filter is_log evs = []" and "filter shows_dialog evs = []"
    and "filter calls_generator evs = []" and "Kw_read_range_selection \<notin> set evs"
  using assms by (induction evs) auto

lemma is_compatible_True:
  assumes "fst (is_compatible h) = Inr True"
  shows "is_compatible h = (Inr True, h\<lparr>trace := trace h @ events_of is_compatible h\<rparr>)"
  using assms is_compatible_run [of h] by (cases "is_compatible h") simp

lemma is_compatible_False:
  assumes "fst (is_compatible h) = Inr False"
  shows "is_compatible h = (Inr False, h\<lparr>trace := trace h @ events_of is_compatible h\<rparr>)"
  using assms is_compatible_run [of h] by (cases "is_compatible h") simp

subsection \<open>Hexadecimal formatting\<close>

lemma hex_digit_is_hex: "d < 16 \<Longrightarrow> is_hex_digit (hex_digit d)"
  unfolding is_hex_digit_def hex_digit_def by (rule nth_mem) simp

lemma hex_nat_is_hex: "list_all is_hex_digit (hex_nat n)"
proof (induction n rule: hex_nat.induct)
  case (1 n)
  show ?case
  proof (cases "n < 16")
    case True
    then show ?thesis by (subst hex_nat.simps) (simp add: hex_digit_is_hex)
  next
    case False
    with 1 show ?thesis by (subst hex_nat.simps) (simp add: hex_digit_is_hex)
  qed
qed

lemma length_hex_nat: "0 < w \<Longrightarrow> n < 16 ^ w \<Longrightarrow> length (hex_nat n) \<le> w"
proof (induction n arbitrary: w rule: hex_nat.induct)
  case (1 n)
  show ?case
  proof (cases "n < 16")
    case True
    with 1 show ?thesis by (subst hex_nat.simps) simp
  next
    case False
    obtain v where w: "w = Suc v"
      using 1(2) by (cases w) auto
    have "0 < v"
      using False 1(3) w by (cases v) auto
    moreover have "n div 16 < 16 ^ v"
      using 1(3) w by (simp add: less_mult_imp_div_less mult.commute)
    ultimately have "length (hex_nat (n div 16)) \<le> v"
      using 1(1) False by simp
    with False w show ?thesis by (subst hex_nat.simps) simp
  qed
qed

lemma hex_nat_not_Nil: "hex_nat n \<noteq> []"
  by (subst hex_nat.simps) simp

lemma fmt_0x_nonneg:
  assumes "0 \<le> n"
  shows "w \<le> length (fmt_0x w n)" and "list_all is_hex_digit (fmt_0x w n)"
    and "0 < w \<Longrightarrow> n < 16 ^ w \<Longrightarrow> length (fmt_0x w n) = w"
proof -
  show "w \<le> length (fmt_0x w n)"
    using assms by (simp add: fmt_0x_def zfill_def)
  have zero: "is_hex_digit (CHR ''0'')"
    by (simp add: is_hex_digit_def)
  have "list_all is_hex_digit (zfill w (hex_nat (nat n)))"
    using zero hex_nat_is_hex [of "nat n"] by (auto simp: zfill_def list_all_iff)
  then show "list_all is_hex_digit (fmt_0x w n)"
    using assms by (simp add: fmt_0x_def)
  show "length (fmt_0x w n) = w" if "0 < w" "n < 16 ^ w"
  proof -
    have "nat n < 16 ^ w"
      using assms that(2) by (simp add: nat_less_iff)
    then have "length (hex_nat (nat n)) \<le> w"
      using that(1) by (rule length_hex_nat [rotated])
    then show ?thesis
      using assms by (simp add: fmt_0x_def zfill_def)
  qed
qed

text \<open>Two concrete addresses, evaluated by unfolding.\<close>

lemma fmt_0x_examples:
  "fmt_0x 8 0xFFFFFFFFFFFFFFFF = ''ffffffffffffffff''"
  "fmt_0x 16 0x401005 = ''0000000000401005''"
  "fmt_0x 8 0x401000 = ''00401000''"
  "fmt_0x 8 0x401020 = ''00401020''"
  by (simp_all add: fmt_0x_def zfill_def hex_nat.simps hex_digit_def)
     (simp_all add: eval_nat_numeral)

subsection \<open>Rejections before the dialog\<close>

text \<open>
  Claim C10. With no range selection and no function at the cursor, \<^verbatim>\<open>show_microcode\<close>
  returns (False, "Position cursor within a function or select range") after the three
  queries for the selection, the cursor and the function. With a chosen range whose start
  address does not carry the code flag, it returns (False, "The selected range must
  start with an instruction") after the six host calls of the prologue: the maturity
  dialog has not been executed and the microcode generator has not been called.
\<close>

theorem show_microcode_rejects_early:
  "(chosen_range h = None \<longrightarrow>
      fst (show_microcode h) =
        Inr (False, ''Position cursor within a function or select range'')
      \<and> events_of show_microcode h =
          [Kw_read_range_selection, Kw_get_screen_ea, Funcs_get_func (screen_ea h)])
   \<and> (chosen_range h = Some (sea, eea) \<and> \<not> code_flags h (byte_flags h sea) \<longrightarrow>
        fst (show_microcode h) =
          Inr (False, ''The selected range must start with an instruction'')
        \<and> events_of show_microcode h = prologue h sea
        \<and> filter shows_dialog (events_of show_microcode h) = []
        \<and> filter calls_generator (events_of show_microcode h) = [])"
  by (simp add: show_microcode_no_range show_microcode_not_code events_of_def prologue_def)

theorem show_microcode_rejects_early_witness:
  "chosen_range (sample_host\<lparr>screen_ea := 0\<rparr>) = None
   \<and> fst (show_microcode (sample_host\<lparr>screen_ea := 0\<rparr>)) =
        Inr (False, ''Position cursor within a function or select range'')
   \<and> chosen_range (sample_host\<lparr>code_flags := (\<lambda>F. False)\<rparr>) = Some (0x401000, 0x401020)
   \<and> fst (show_microcode (sample_host\<lparr>code_flags := (\<lambda>F. False)\<rparr>)) =
        Inr (False, ''The selected range must start with an instruction'')
   \<and> filter shows_dialog (events_of show_microcode (sample_host\<lparr>code_flags := (\<lambda>F. False)\<rparr>)) = []"
proof -
  have a: "chosen_range (sample_host\<lparr>screen_ea := 0\<rparr>) = None"
    by code_simp
  have b: "chosen_range (sample_host\<lparr>code_flags := (\<lambda>F. False)\<rparr>) = Some (0x401000, 0x401020)"
    by code_simp
  have c: "\<not> code_flags (sample_host\<lparr>code_flags := (\<lambda>F. False)\<rparr>)
              (byte_flags (sample_host\<lparr>code_flags := (\<lambda>F. False)\<rparr>) 0x401000)"
    by simp
  from show_microcode_rejects_early [of "sample_host\<lparr>screen_ea := 0\<rparr>"] a
  have d: "fst (show_microcode (sample_host\<lparr>screen_ea := 0\<rparr>)) =
        Inr (False, ''Position cursor within a function or select range'')"
    by blast
  from show_microcode_rejects_early
         [of "sample_host\<lparr>code_flags := (\<lambda>F. False)\<rparr>" "0x401000" "0x401020"] b c
  have e: "fst (show_microcode (sample_host\<lparr>code_flags := (\<lambda>F. False)\<rparr>)) =
        Inr (False, ''The selected range must start with an instruction'')
      \<and> filter shows_dialog (events_of show_microcode (sample_host\<lparr>code_flags := (\<lambda>F. False)\<rparr>)) = []"
    by blast
  from a b d e show ?thesis by blast
qed

subsection \<open>Cancelling the dialog\<close>

text \<open>
  Claim C9. When a run reaches the maturity dialog (a range is chosen and starts with
  code) and the user cancels it (\<^verbatim>\<open>Execute\<close> does not return 1), \<^verbatim>\<open>show_microcode\<close>
  returns (True, "Cancelled") and has not called the microcode generator. Run from
  \<^verbatim>\<open>create_mc_widget\<close> on a compatible host, the result is True and the last host call is
  \<^verbatim>\<open>kw.msg("genmc: Cancelled\\n")\<close>, on the info channel; the generator is not called in
  that run either.
\<close>

theorem show_microcode_cancelled:
  assumes "chosen_range h = Some (sea, eea)" and "code_flags h (byte_flags h sea)"
    and "form_ok h \<noteq> 1"
  shows "fst (show_microcode h) = Inr (True, ''Cancelled'')
     \<and> events_of show_microcode h = prologue h sea @ dialog
     \<and> filter calls_generator (events_of show_microcode h) = []
     \<and> (fst (is_compatible h) = Inr True \<longrightarrow>
          fst (create_mc_widget h) = Inr True
          \<and> events_of create_mc_widget h =
              events_of is_compatible h @ prologue h sea @ dialog
              @ [Kw_msg ''genmc: Cancelled\<newline>'']
          \<and> filter calls_generator (events_of create_mc_widget h) = [])"
proof -
  have direct: "fst (show_microcode h) = Inr (True, ''Cancelled'')
     \<and> events_of show_microcode h = prologue h sea @ dialog
     \<and> filter calls_generator (events_of show_microcode h) = []"
    using assms by (simp add: show_microcode_cancel events_of_def prologue_def dialog_def)
  have widget: "fst (create_mc_widget h) = Inr True
          \<and> events_of create_mc_widget h =
              events_of is_compatible h @ prologue h sea @ dialog
              @ [Kw_msg ''genmc: Cancelled\<newline>'']
          \<and> filter calls_generator (events_of create_mc_widget h) = []"
    if compat: "fst (is_compatible h) = Inr True"
  proof -
    let ?h1 = "h\<lparr>trace := trace h @ events_of is_compatible h\<rparr>"
    have 1: "is_compatible h = (Inr True, ?h1)"
      using compat by (rule is_compatible_True)
    have 2: "show_microcode ?h1 =
        (Inr (True, ''Cancelled''), ?h1\<lparr>trace := trace ?h1 @ prologue ?h1 sea @ dialog\<rparr>)"
      using assms by (intro show_microcode_cancel) simp_all
    have quiet: "filter calls_generator (events_of is_compatible h) = []"
      using is_compatible_run [of h] by (simp add: version_events_quiet)
    show ?thesis
      using quiet
      by (simp add: create_mc_widget_compatible [OF 1 2] events_of_def prologue_def dialog_def)
  qed
  from direct widget show ?thesis by blast
qed

theorem show_microcode_cancelled_witness:
  "chosen_range (sample_host\<lparr>form_ok := 0\<rparr>) = Some (0x401000, 0x401020)
   \<and> form_ok (sample_host\<lparr>form_ok := 0\<rparr>) \<noteq> 1
   \<and> fst (is_compatible (sample_host\<lparr>form_ok := 0\<rparr>)) = Inr True
   \<and> fst (show_microcode (sample_host\<lparr>form_ok := 0\<rparr>)) = Inr (True, ''Cancelled'')
   \<and> fst (create_mc_widget (sample_host\<lparr>form_ok := 0\<rparr>)) = Inr True
   \<and> filter calls_generator (events_of create_mc_widget (sample_host\<lparr>form_ok := 0\<rparr>)) = []"
proof -
  let ?h = "sample_host\<lparr>form_ok := 0\<rparr>"
  have a: "chosen_range ?h = Some (0x401000, 0x401020)"
    by code_simp
  have b: "code_flags ?h (byte_flags ?h 0x401000)"
    by code_simp
  have c: "form_ok ?h \<noteq> 1"
    by simp
  have d: "fst (is_compatible ?h) = Inr True"
    by code_simp
  from show_microcode_cancelled [OF a b c] d a c show ?thesis
    by blast
qed

subsection \<open>A failing generator\<close>

text \<open>
  Claim C5, as amended. When a run reaches the generator and the generator returns no
  microcode object, \<^verbatim>\<open>show_microcode\<close> returns the failure pair whose message is "0x",
  the failure object's error address in lower-case hexadecimal, zero-padded to a width of
  at least 16 characters for a 64-bit database and at least 8 otherwise, then ": " and the
  failure object's error string. The field has exactly 16 (or 8) hexadecimal digits when
  the address is non-negative and below \<open>16 ^ 16\<close> (or \<open>16 ^ 8\<close>); a longer address is
  printed in full. The generator is called once, and no viewer is created.
\<close>

theorem show_microcode_generator_failure:
  assumes "chosen_range h = Some (sea, eea)" and "code_flags h (byte_flags h sea)"
    and "form_ok h = 1" and "py_index maturity_levels (form_mat_lvl h) = Inr (text, mmat)"
    and "microcode h sea eea (DECOMP_WARNINGS h) (Some mmat) = Inl hf"
  shows "fst (show_microcode h) =
           Inr (False, ''0x'' @ fmt_0x (addr_width h) (errea hf) @ '': '' @ str hf)
     \<and> addr_width h = (if inf_64bit h then 16 else 8)
     \<and> events_of show_microcode h =
           prologue h sea @ dialog @ [Hr_gen_microcode sea eea (DECOMP_WARNINGS h) (Some mmat)]
     \<and> length (filter calls_generator (events_of show_microcode h)) = 1
     \<and> filter uses_viewer (events_of show_microcode h) = []
     \<and> (0 \<le> errea hf \<longrightarrow>
          addr_width h \<le> length (fmt_0x (addr_width h) (errea hf))
          \<and> list_all is_hex_digit (fmt_0x (addr_width h) (errea hf)))
     \<and> (0 \<le> errea hf \<and> errea hf < 16 ^ addr_width h \<longrightarrow>
          length (fmt_0x (addr_width h) (errea hf)) = addr_width h)"
proof -
  have run: "fst (show_microcode h) =
           Inr (False, ''0x'' @ fmt_0x (addr_width h) (errea hf) @ '': '' @ str hf)
     \<and> events_of show_microcode h =
           prologue h sea @ dialog @ [Hr_gen_microcode sea eea (DECOMP_WARNINGS h) (Some mmat)]"
    using assms by (simp add: show_microcode_gen_failed events_of_def addr_width_def)
  have count: "length (filter calls_generator
                 (prologue h sea @ dialog @ [Hr_gen_microcode sea eea (DECOMP_WARNINGS h) (Some mmat)])) = 1"
    and viewer: "filter uses_viewer
                 (prologue h sea @ dialog @ [Hr_gen_microcode sea eea (DECOMP_WARNINGS h) (Some mmat)]) = []"
    by (simp_all add: prologue_def dialog_def)
  have pos: "0 < addr_width h"
    by (simp add: addr_width_def)
  have width: "addr_width h = (if inf_64bit h then 16 else 8)"
    by (simp add: addr_width_def)
  from run count viewer width fmt_0x_nonneg [of "errea hf" "addr_width h"] pos
  show ?thesis by simp
qed

theorem show_microcode_generator_failure_witness:
  "chosen_range (sample_host\<lparr>inf_64bit := True, microcode :=
       (\<lambda>sea eea fl mmat. Inl \<lparr>errea = 0x401005, str = ''call analysis failed''\<rparr>)\<rparr>)
     = Some (0x401000, 0x401020)
   \<and> fst (show_microcode (sample_host\<lparr>inf_64bit := True, microcode :=
       (\<lambda>sea eea fl mmat. Inl \<lparr>errea = 0x401005, str = ''call analysis failed''\<rparr>)\<rparr>))
     = Inr (False, ''0x0000000000401005: call analysis failed'')"
proof -
  let ?hf = "\<lparr>errea = 0x401005, str = ''call analysis failed''\<rparr>"
  let ?h = "sample_host\<lparr>inf_64bit := True, microcode := (\<lambda>sea eea fl mmat. Inl ?hf)\<rparr>"
  have a: "chosen_range ?h = Some (0x401000, 0x401020)"
    by code_simp
  have b: "code_flags ?h (byte_flags ?h 0x401000)"
    by code_simp
  have c: "form_ok ?h = 1"
    by code_simp
  have d: "py_index maturity_levels (form_mat_lvl ?h) = Inr (''MMAT_LOCOPT'', MMAT_LOCOPT)"
    by code_simp
  have e: "microcode ?h 0x401000 0x401020 (DECOMP_WARNINGS ?h) (Some MMAT_LOCOPT) = Inl ?hf"
    by simp
  have f: "addr_width ?h = 16"
    by (simp add: addr_width_def)
  have g: "fmt_0x 16 0x401005 = ''0000000000401005''"
    by (rule fmt_0x_examples)
  from show_microcode_generator_failure [OF a b c d e]
  have "fst (show_microcode ?h) =
           Inr (False, ''0x'' @ fmt_0x (addr_width ?h) (errea ?hf) @ '': '' @ str ?hf)"
    by blast
  with a f g show ?thesis by simp
qed

text \<open>
  The claim as first stated promises 8 hexadecimal digits outside a 64-bit database. On a
  32-bit database whose host reports the 64-bit "no address" value, the address field
  has 16 digits.
\<close>

theorem show_microcode_generator_failure_counterexample:
  "\<not> inf_64bit failing_host
   \<and> fst (show_microcode failing_host) =
       Inr (False, ''0x'' @ ''ffffffffffffffff'' @ '': decompilation failed'')
   \<and> length ''ffffffffffffffff'' \<noteq> (8::nat)"
proof -
  let ?hf = "\<lparr>errea = 0xFFFFFFFFFFFFFFFF, str = ''decompilation failed''\<rparr>"
  have a: "chosen_range failing_host = Some (0x401000, 0x401020)"
    by code_simp
  have b: "code_flags failing_host (byte_flags failing_host 0x401000)"
    by code_simp
  have c: "form_ok failing_host = 1"
    by code_simp
  have d: "py_index maturity_levels (form_mat_lvl failing_host) = Inr (''MMAT_LOCOPT'', MMAT_LOCOPT)"
    by code_simp
  have e: "microcode failing_host 0x401000 0x401020 (DECOMP_WARNINGS failing_host)
             (Some MMAT_LOCOPT) = Inl ?hf"
    by (simp add: failing_host_def)
  have f: "\<not> inf_64bit failing_host"
    by (simp add: failing_host_def sample_host_def)
  from show_microcode_gen_failed [OF a b c d e] f
  show ?thesis by (simp add: fmt_0x_examples)
qed

subsection \<open>Reporting the outcome\<close>

text \<open>
  Claim C3, as amended. \<^verbatim>\<open>show_microcode\<close> returns a pair of a success flag and a
  message whenever the dialog is not accepted or the index the accepted dialog reports is
  an index of the eight-element list (Python indices \<open>-8\<close> to \<open>7\<close>); the only other
  outcome is the IndexError of the list access. When the compatibility check passes and
  \<^verbatim>\<open>show_microcode\<close> returns (flag, message), \<^verbatim>\<open>create_mc_widget\<close> makes one more host
  call, \<^verbatim>\<open>kw.msg("genmc: " + message + "\\n")\<close> if the flag is True and
  \<^verbatim>\<open>kw.warning\<close> of the same text if it is False, and returns the flag; this is the only
  output on either channel in the whole run. When \<^verbatim>\<open>show_microcode\<close> raises, the
  exception leaves \<^verbatim>\<open>create_mc_widget\<close> and nothing is logged.
\<close>

theorem create_mc_widget_reports:
  "(form_ok h \<noteq> 1 \<or> (- 8 \<le> form_mat_lvl h \<and> form_mat_lvl h < 8) \<longrightarrow>
      (\<exists>flag message. fst (show_microcode h) = Inr (flag, message)))
   \<and> (is_compatible h = (Inr True, h1) \<and> show_microcode h1 = (Inr (flag, message), h2) \<longrightarrow>
        create_mc_widget h =
          (Inr flag,
           h2\<lparr>trace := trace h2 @ [if flag then Kw_msg (''genmc: '' @ message @ ''\<newline>'')
                                     else Kw_warning (''genmc: '' @ message @ ''\<newline>'')]\<rparr>)
        \<and> filter is_log (events_of create_mc_widget h) =
            [if flag then Kw_msg (''genmc: '' @ message @ ''\<newline>'')
             else Kw_warning (''genmc: '' @ message @ ''\<newline>'')])
   \<and> ((\<exists>flag message. fst (show_microcode h) = Inr (flag, message))
        \<or> fst (show_microcode h) = Inl IndexError)
   \<and> (is_compatible h = (Inr True, h1) \<and> show_microcode h1 = (Inl e, h2) \<longrightarrow>
        create_mc_widget h = (Inl e, h2)
        \<and> filter is_log (events_of create_mc_widget h) = [])"
proof -
  have traces: "trace h2 = trace h @ events_of is_compatible h @ events_of show_microcode h1
        \<and> filter is_log (events_of is_compatible h) = []
        \<and> filter is_log (events_of show_microcode h1) = []"
    if 1: "is_compatible h = (Inr True, h1)" and 2: "show_microcode h1 = (r, h2)" for r
  proof -
    have h1: "h1 = h\<lparr>trace := trace h @ events_of is_compatible h\<rparr>"
      and q1: "filter is_log (events_of is_compatible h) = []"
      using is_compatible_run [of h] 1 by (simp_all add: version_events_quiet)
    have h2: "h2 = h1\<lparr>trace := trace h1 @ events_of show_microcode h1\<rparr>"
      and q2: "filter is_log (events_of show_microcode h1) = []"
      using show_microcode_run [of h1] 2 by simp_all
    have t1: "trace h1 = trace h @ events_of is_compatible h"
      by (subst h1) simp
    have t2: "trace h2 = trace h1 @ events_of show_microcode h1"
      by (subst h2) simp
    from t1 t2 q1 q2 show ?thesis by simp
  qed
  have widget: "create_mc_widget h =
          (Inr flag,
           h2\<lparr>trace := trace h2 @ [if flag then Kw_msg (''genmc: '' @ message @ ''\<newline>'')
                                     else Kw_warning (''genmc: '' @ message @ ''\<newline>'')]\<rparr>)
        \<and> filter is_log (events_of create_mc_widget h) =
            [if flag then Kw_msg (''genmc: '' @ message @ ''\<newline>'')
             else Kw_warning (''genmc: '' @ message @ ''\<newline>'')]"
    if run: "is_compatible h = (Inr True, h1) \<and> show_microcode h1 = (Inr (flag, message), h2)"
  proof -
    from run have 1: "is_compatible h = (Inr True, h1)"
      and 2: "show_microcode h1 = (Inr (flag, message), h2)"
      by simp_all
    show ?thesis
      using traces [OF 1 2]
      by (simp add: create_mc_widget_compatible [OF 1 2] events_of_def [of create_mc_widget])
  qed
  have raises: "create_mc_widget h = (Inl e, h2)
        \<and> filter is_log (events_of create_mc_widget h) = []"
    if run: "is_compatible h = (Inr True, h1) \<and> show_microcode h1 = (Inl e, h2)"
  proof -
    from run have 1: "is_compatible h = (Inr True, h1)"
      and 2: "show_microcode h1 = (Inl e, h2)"
      by simp_all
    show ?thesis
      using traces [OF 1 2]
      by (simp add: create_mc_widget_raises [OF 1 2] events_of_def [of create_mc_widget])
  qed
  from show_microcode_returns [of h] show_microcode_outcome [of h] widget raises show ?thesis
    by blast
qed

theorem create_mc_widget_reports_witness:
  "- 8 \<le> form_mat_lvl (sample_host\<lparr>code_flags := (\<lambda>F. False)\<rparr>)
   \<and> form_mat_lvl (sample_host\<lparr>code_flags := (\<lambda>F. False)\<rparr>) < 8
   \<and> (\<exists>flag message.
         fst (show_microcode (sample_host\<lparr>code_flags := (\<lambda>F. False)\<rparr>)) = Inr (flag, message))
   \<and> fst (is_compatible (sample_host\<lparr>code_flags := (\<lambda>F. False)\<rparr>)) = Inr True
   \<and> fst (show_microcode (snd (is_compatible (sample_host\<lparr>code_flags := (\<lambda>F. False)\<rparr>)))) =
        Inr (False, ''The selected range must start with an instruction'')
   \<and> fst (create_mc_widget (sample_host\<lparr>code_flags := (\<lambda>F. False)\<rparr>)) = Inr False
   \<and> filter is_log (events_of create_mc_widget (sample_host\<lparr>code_flags := (\<lambda>F. False)\<rparr>)) =
        [Kw_warning ''genmc: The selected range must start with an instruction\<newline>'']"
proof -
  let ?h = "sample_host\<lparr>code_flags := (\<lambda>F. False)\<rparr>"
  let ?h1 = "snd (is_compatible ?h)"
  let ?h2 = "snd (show_microcode ?h1)"
  have i: "- 8 \<le> form_mat_lvl ?h \<and> form_mat_lvl ?h < 8"
    by (simp add: sample_host_def)
  have a: "fst (is_compatible ?h) = Inr True"
    by code_simp
  have b: "fst (show_microcode ?h1) =
             Inr (False, ''The selected range must start with an instruction'')"
    by code_simp
  have 1: "is_compatible ?h = (Inr True, ?h1)"
    using a by (simp add: prod_eq_iff)
  have 2: "show_microcode ?h1 =
             (Inr (False, ''The selected range must start with an instruction''), ?h2)"
    using b by (simp add: prod_eq_iff)
  note inst = create_mc_widget_reports
         [of ?h ?h1 False "''The selected range must start with an instruction''" ?h2]
  from inst i have total: "\<exists>flag message. fst (show_microcode ?h) = Inr (flag, message)"
    by blast
  from inst 1 2
  have "create_mc_widget ?h =
          (Inr False,
           ?h2\<lparr>trace := trace ?h2
              @ [Kw_warning (''genmc: '' @ ''The selected range must start with an instruction''
                             @ ''\<newline>'')]\<rparr>)
        \<and> filter is_log (events_of create_mc_widget ?h) =
            [Kw_warning (''genmc: '' @ ''The selected range must start with an instruction''
                         @ ''\<newline>'')]"
    by simp
  with i total a b show ?thesis by simp
qed

text \<open>
  The claim as first stated says that \<^verbatim>\<open>show_microcode\<close> always returns a pair. The
  index of the dropdown is used unchecked: when the accepted dialog reports the index 8,
  \<^verbatim>\<open>maturity_levels[8]\<close> raises IndexError, \<^verbatim>\<open>show_microcode\<close> returns nothing, and
  \<^verbatim>\<open>create_mc_widget\<close> neither logs a message nor returns a flag.
\<close>

theorem create_mc_widget_reports_counterexample:
  "form_ok (sample_host\<lparr>form_mat_lvl := 8\<rparr>) = 1
   \<and> fst (show_microcode (sample_host\<lparr>form_mat_lvl := 8\<rparr>)) = Inl IndexError
   \<and> fst (create_mc_widget (sample_host\<lparr>form_mat_lvl := 8\<rparr>)) = Inl IndexError
   \<and> filter is_log (events_of create_mc_widget (sample_host\<lparr>form_mat_lvl := 8\<rparr>)) = []"
  by code_simp

subsection \<open>An incompatible host\<close>

text \<open>
  Claim C4. When \<^verbatim>\<open>is_compatible\<close> returns False, \<^verbatim>\<open>create_mc_widget\<close> logs
  "genmc: Unsupported IDA / Hex-rays version" with \<^verbatim>\<open>kw.msg\<close> and returns False. The
  only host calls before that message are those of the check itself (the kernel version
  query and possibly the decompiler initialisation): \<^verbatim>\<open>show_microcode\<close>, whose every run
  starts with the selection query, is not invoked, so no dialog is executed and the
  generator is not called. The plugin's \<^verbatim>\<open>init\<close> returns PLUGIN_SKIP.
\<close>

theorem create_mc_widget_incompatible:
  assumes "fst (is_compatible h) = Inr False"
  shows "fst (create_mc_widget h) = Inr False
     \<and> events_of create_mc_widget h =
         events_of is_compatible h @ [Kw_msg ''genmc: Unsupported IDA / Hex-rays version\<newline>'']
     \<and> list_all (\<lambda>e. e = Kw_get_kernel_version \<or> e = Hr_init_hexrays_plugin)
          (events_of is_compatible h)
     \<and> Kw_read_range_selection \<notin> set (events_of create_mc_widget h)
     \<and> take 1 (events_of show_microcode h') = [Kw_read_range_selection]
     \<and> filter shows_dialog (events_of create_mc_widget h) = []
     \<and> filter calls_generator (events_of create_mc_widget h) = []
     \<and> fst (genmc_init h) = Inr PLUGIN_SKIP"
proof -
  let ?h1 = "h\<lparr>trace := trace h @ events_of is_compatible h\<rparr>"
  have 1: "is_compatible h = (Inr False, ?h1)"
    using assms by (rule is_compatible_False)
  have only: "list_all (\<lambda>e. e = Kw_get_kernel_version \<or> e = Hr_init_hexrays_plugin)
          (events_of is_compatible h)"
    using is_compatible_run [of h] by simp
  have widget: "fst (create_mc_widget h) = Inr False
     \<and> events_of create_mc_widget h =
         events_of is_compatible h @ [Kw_msg ''genmc: Unsupported IDA / Hex-rays version\<newline>'']"
    by (simp add: create_mc_widget_incompatible_run [OF 1] events_of_def [of create_mc_widget])
  have init: "fst (genmc_init h) = Inr PLUGIN_SKIP"
    using 1 by (simp add: genmc_init_def io_bind_def io_return_def)
  have first: "take 1 (events_of show_microcode h') = [Kw_read_range_selection]"
    using show_microcode_run [of h'] by simp
  from widget only init first version_events_quiet [OF only] show ?thesis
    by simp
qed

theorem create_mc_widget_incompatible_witness:
  "fst (is_compatible (sample_host\<lparr>kernel_version := ''8.2''\<rparr>)) = Inr False
   \<and> fst (create_mc_widget (sample_host\<lparr>kernel_version := ''8.2''\<rparr>)) = Inr False
   \<and> Kw_read_range_selection \<notin> set (events_of create_mc_widget (sample_host\<lparr>kernel_version := ''8.2''\<rparr>))
   \<and> fst (genmc_init (sample_host\<lparr>kernel_version := ''8.2''\<rparr>)) = Inr PLUGIN_SKIP"
proof -
  have a: "fst (is_compatible (sample_host\<lparr>kernel_version := ''8.2''\<rparr>)) = Inr False"
    by code_simp
  from create_mc_widget_incompatible [OF a] a show ?thesis
    by blast
qed

subsection \<open>The installer\<close>

lemmas install_defs = install_plugin_def is_plugin_def SELF_def is_installed_def
  get_target_dir_def ida_diskio_get_user_idadir_def os_path_isfile_def os_path_exists_def
  os_path_makedirs_def kw_msg_def kw_ask_yn_def wanted_name_def

lemma install_plugin_mkdir:
  assumes "\<not> str_in ''__plugins__'' (py_name h)"
    and "dst = os_path_join (os_path_join (user_idadir h) ''plugins'') ''genmc.py''"
    and "fs_files h dst = None"
    and "os_path_dirname dst \<notin> fs_dirs h" and "fs_files h (os_path_dirname dst) = None"
  shows "install_plugin h =
     (Inl (AttributeError ''os.path'' ''makedirs''),
      h\<lparr>trace := trace h @
         [Diskio_get_user_idadir, Diskio_get_user_idadir,
          Kw_msg (''Copying script from '' @ [CHR 0x22] @ py_file h @ [CHR 0x22] @ '' to ''
                  @ [CHR 0x22] @ os_path_dirname dst @ [CHR 0x22] @ '' ...'')]\<rparr>)"
  using assms by (simp add: install_defs io_defs Let_def)

lemma install_plugin_copied:
  assumes "\<not> str_in ''__plugins__'' (py_name h)"
    and "dst = os_path_join (os_path_join (user_idadir h) ''plugins'') ''genmc.py''"
    and "fs_files h dst = None" and "dst \<notin> fs_dirs h"
    and "os_path_dirname dst \<in> fs_dirs h"
    and "fs_files h (py_file h) = Some content"
  shows "install_plugin h =
     (Inr True,
      h\<lparr>fs_files := (fs_files h)(dst \<mapsto> content),
        trace := trace h @
         [Diskio_get_user_idadir, Diskio_get_user_idadir,
          Kw_msg (''Copying script from '' @ [CHR 0x22] @ py_file h @ [CHR 0x22] @ '' to ''
                  @ [CHR 0x22] @ os_path_dirname dst @ [CHR 0x22] @ '' ...''),
          Kw_msg ''done!\<newline>'']\<rparr>)"
proof -
  have "py_file h \<noteq> dst"
    using assms(3,6) by auto
  with assms show ?thesis
    by (simp add: install_defs io_defs Let_def shutil_copy_def)
qed

lemma install_plugin_copy_failed:
  assumes "\<not> str_in ''__plugins__'' (py_name h)"
    and "dst = os_path_join (os_path_join (user_idadir h) ''plugins'') ''genmc.py''"
    and "fs_files h dst = None"
    and "os_path_dirname dst \<in> fs_dirs h"
    and "fs_files h (py_file h) = None"
  shows "install_plugin h =
     (Inr False,
      h\<lparr>trace := trace h @
         [Diskio_get_user_idadir, Diskio_get_user_idadir,
          Kw_msg (''Copying script from '' @ [CHR 0x22] @ py_file h @ [CHR 0x22] @ '' to ''
                  @ [CHR 0x22] @ os_path_dirname dst @ [CHR 0x22] @ '' ...''),
          Kw_msg ''failed (copy)!\<newline>'']\<rparr>)"
  using assms by (simp add: install_defs io_defs Let_def shutil_copy_def)

lemma install_plugin_same_file:
  assumes "\<not> str_in ''__plugins__'' (py_name h)"
    and "dst = os_path_join (os_path_join (user_idadir h) ''plugins'') ''genmc.py''"
    and "py_file h = dst" and "fs_files h dst = Some content" and "dst \<notin> fs_dirs h"
    and "os_path_dirname dst \<in> fs_dirs h"
    and "ask_yn_reply h = ASKBTN_YES"
  shows "install_plugin h =
     (Inr False,
      h\<lparr>trace := trace h @
         [Diskio_get_user_idadir, Kw_ask_yn ASKBTN_NO ''File exists. Replace?'',
          Diskio_get_user_idadir,
          Kw_msg (''Copying script from '' @ [CHR 0x22] @ py_file h @ [CHR 0x22] @ '' to ''
                  @ [CHR 0x22] @ os_path_dirname dst @ [CHR 0x22] @ '' ...''),
          Kw_msg ''failed (copy)!\<newline>'']\<rparr>)"
  using assms by (simp add: install_defs io_defs Let_def shutil_copy_def)

text \<open>
  Claim C1 says that \<^verbatim>\<open>install_plugin\<close> creates a missing user plugin directory and
  then copies the script into it. The code does not: run as a script, not yet installed,
  with the directory missing, the call ends in the AttributeError of
  \<^verbatim>\<open>os.path.makedirs\<close>; it does not return True, and the file system is as before (no
  directory made, no file copied).
\<close>

theorem install_plugin_directory_not_created:
  assumes "\<not> str_in ''__plugins__'' (py_name h)"
    and "dst = os_path_join (os_path_join (user_idadir h) ''plugins'') ''genmc.py''"
    and "fs_files h dst = None"
    and "os_path_dirname dst \<notin> fs_dirs h" and "fs_files h (os_path_dirname dst) = None"
  shows "fst (install_plugin h) \<noteq> Inr True
     \<and> fs_dirs (snd (install_plugin h)) = fs_dirs h
     \<and> fs_files (snd (install_plugin h)) = fs_files h"
  by (simp add: install_plugin_mkdir [OF assms])

theorem install_plugin_directory_not_created_witness:
  "\<not> str_in ''__plugins__'' (py_name sample_host)
   \<and> ''/home/u/.idapro/plugins'' \<notin> fs_dirs sample_host
   \<and> fst (install_plugin sample_host) \<noteq> Inr True
   \<and> fs_dirs (snd (install_plugin sample_host)) = fs_dirs sample_host
   \<and> fs_files (snd (install_plugin sample_host)) = fs_files sample_host"
proof -
  have a: "\<not> str_in ''__plugins__'' (py_name sample_host)"
    by code_simp
  have b: "''/home/u/.idapro/plugins/genmc.py'' =
      os_path_join (os_path_join (user_idadir sample_host) ''plugins'') ''genmc.py''"
    by code_simp
  have c: "fs_files sample_host ''/home/u/.idapro/plugins/genmc.py'' = None"
    by (simp add: sample_host_def)
  have d: "os_path_dirname ''/home/u/.idapro/plugins/genmc.py'' = ''/home/u/.idapro/plugins''"
    by code_simp
  have e: "''/home/u/.idapro/plugins'' \<notin> fs_dirs sample_host"
    by (simp add: sample_host_def)
  have f: "fs_files sample_host ''/home/u/.idapro/plugins'' = None"
    by (simp add: sample_host_def)
  from install_plugin_directory_not_created [OF a b c] d e f a show ?thesis
    by simp
qed

text \<open>
  Claim C2 says that every failure of the directory creation is caught, logged and turned
  into the result False. In the same situation the AttributeError leaves
  \<^verbatim>\<open>install_plugin\<close>: the handler only takes OSError. The message "failed (mkdir)!" is
  not logged; the only output is the "Copying script ..." line.
\<close>

theorem install_plugin_mkdir_error_escapes:
  assumes "\<not> str_in ''__plugins__'' (py_name h)"
    and "dst = os_path_join (os_path_join (user_idadir h) ''plugins'') ''genmc.py''"
    and "fs_files h dst = None"
    and "os_path_dirname dst \<notin> fs_dirs h" and "fs_files h (os_path_dirname dst) = None"
  shows "fst (install_plugin h) = Inl (AttributeError ''os.path'' ''makedirs'')
     \<and> Kw_msg ''failed (mkdir)!\<newline>'' \<notin> set (events_of install_plugin h)
     \<and> length (filter is_log (events_of install_plugin h)) = 1"
  by (simp add: install_plugin_mkdir [OF assms] events_of_def)

theorem install_plugin_mkdir_error_escapes_witness:
  "''/home/u/.idapro/plugins'' \<notin> fs_dirs sample_host
   \<and> fst (install_plugin sample_host) = Inl (AttributeError ''os.path'' ''makedirs'')
   \<and> Kw_msg ''failed (mkdir)!\<newline>'' \<notin> set (events_of install_plugin sample_host)"
proof -
  have a: "\<not> str_in ''__plugins__'' (py_name sample_host)"
    by code_simp
  have b: "''/home/u/.idapro/plugins/genmc.py'' =
      os_path_join (os_path_join (user_idadir sample_host) ''plugins'') ''genmc.py''"
    by code_simp
  have c: "fs_files sample_host ''/home/u/.idapro/plugins/genmc.py'' = None"
    by (simp add: sample_host_def)
  have d: "os_path_dirname ''/home/u/.idapro/plugins/genmc.py'' = ''/home/u/.idapro/plugins''"
    by code_simp
  have e: "''/home/u/.idapro/plugins'' \<notin> fs_dirs sample_host"
    by (simp add: sample_host_def)
  have f: "fs_files sample_host ''/home/u/.idapro/plugins'' = None"
    by (simp add: sample_host_def)
  from install_plugin_mkdir_error_escapes [OF a b c] d e f show ?thesis
    by simp
qed

text \<open>
  The by-design half of C1: when the user plugin directory exists (and the script is not
  installed yet), the script file is copied to \<^verbatim>\<open>plugins/genmc.py\<close>, "done!" is logged
  and the result is True.
\<close>

theorem install_plugin_copies_into_existing_directory:
  assumes "\<not> str_in ''__plugins__'' (py_name h)"
    and "dst = os_path_join (os_path_join (user_idadir h) ''plugins'') ''genmc.py''"
    and "fs_files h dst = None" and "dst \<notin> fs_dirs h"
    and "os_path_dirname dst \<in> fs_dirs h"
    and "fs_files h (py_file h) = Some content"
  shows "fst (install_plugin h) = Inr True
     \<and> fs_files (snd (install_plugin h)) = (fs_files h)(dst \<mapsto> content)
     \<and> fs_dirs (snd (install_plugin h)) = fs_dirs h
     \<and> last (events_of install_plugin h) = Kw_msg ''done!\<newline>''"
  by (simp add: install_plugin_copied [OF assms] events_of_def)

theorem install_plugin_copies_into_existing_directory_witness:
  "''/home/u/.idapro/plugins'' \<in> fs_dirs (sample_host\<lparr>fs_dirs := {''/tmp'', ''/home/u/.idapro/plugins''}\<rparr>)
   \<and> fst (install_plugin (sample_host\<lparr>fs_dirs := {''/tmp'', ''/home/u/.idapro/plugins''}\<rparr>)) = Inr True
   \<and> fs_files (snd (install_plugin (sample_host\<lparr>fs_dirs := {''/tmp'', ''/home/u/.idapro/plugins''}\<rparr>)))
        ''/home/u/.idapro/plugins/genmc.py'' = Some ''# genmc''"
proof -
  let ?h = "sample_host\<lparr>fs_dirs := {''/tmp'', ''/home/u/.idapro/plugins''}\<rparr>"
  have a: "\<not> str_in ''__plugins__'' (py_name ?h)"
    by code_simp
  have b: "''/home/u/.idapro/plugins/genmc.py'' =
      os_path_join (os_path_join (user_idadir ?h) ''plugins'') ''genmc.py''"
    by code_simp
  have c: "fs_files ?h ''/home/u/.idapro/plugins/genmc.py'' = None"
    by (simp add: sample_host_def)
  have d: "os_path_dirname ''/home/u/.idapro/plugins/genmc.py'' = ''/home/u/.idapro/plugins''"
    by code_simp
  have e: "''/home/u/.idapro/plugins/genmc.py'' \<notin> fs_dirs ?h"
    by simp
  have f: "os_path_dirname ''/home/u/.idapro/plugins/genmc.py'' \<in> fs_dirs ?h"
    by (simp add: d)
  have g: "fs_files ?h (py_file ?h) = Some ''# genmc''"
    by (simp add: sample_host_def)
  from install_plugin_copies_into_existing_directory [OF a b c e f g] show ?thesis
    by simp
qed

text \<open>
  The half of C2 about the copy: when \<^verbatim>\<open>shutil.copy\<close> raises (here: the source file is
  missing), the exception is caught, "failed (copy)!" is logged, the result is False and
  no file is written.
\<close>

theorem install_plugin_copy_failure_caught:
  assumes "\<not> str_in ''__plugins__'' (py_name h)"
    and "dst = os_path_join (os_path_join (user_idadir h) ''plugins'') ''genmc.py''"
    and "fs_files h dst = None"
    and "os_path_dirname dst \<in> fs_dirs h"
    and "fs_files h (py_file h) = None"
  shows "fst (install_plugin h) = Inr False
     \<and> last (events_of install_plugin h) = Kw_msg ''failed (copy)!\<newline>''
     \<and> fs_files (snd (install_plugin h)) = fs_files h"
  by (simp add: install_plugin_copy_failed [OF assms] events_of_def)

theorem install_plugin_copy_failure_caught_witness:
  "fs_files (sample_host\<lparr>fs_dirs := {''/home/u/.idapro/plugins''}, py_file := ''/tmp/gone.py''\<rparr>)
      ''/tmp/gone.py'' = None
   \<and> fst (install_plugin (sample_host\<lparr>fs_dirs := {''/home/u/.idapro/plugins''},
                                        py_file := ''/tmp/gone.py''\<rparr>)) = Inr False"
proof -
  let ?h = "sample_host\<lparr>fs_dirs := {''/home/u/.idapro/plugins''}, py_file := ''/tmp/gone.py''\<rparr>"
  have a: "\<not> str_in ''__plugins__'' (py_name ?h)"
    by code_simp
  have b: "''/home/u/.idapro/plugins/genmc.py'' =
      os_path_join (os_path_join (user_idadir ?h) ''plugins'') ''genmc.py''"
    by code_simp
  have c: "fs_files ?h ''/home/u/.idapro/plugins/genmc.py'' = None"
    by (simp add: sample_host_def)
  have d: "os_path_dirname ''/home/u/.idapro/plugins/genmc.py'' = ''/home/u/.idapro/plugins''"
    by code_simp
  have f: "os_path_dirname ''/home/u/.idapro/plugins/genmc.py'' \<in> fs_dirs ?h"
    by (simp add: d)
  have g: "fs_files ?h (py_file ?h) = None"
    by (simp add: sample_host_def)
  from install_plugin_copy_failure_caught [OF a b c f g] g show ?thesis
    by simp
qed

text \<open>
  Another failing copy: the running script is the installed file itself and the user
  agrees to replace it. \<^verbatim>\<open>shutil.copy\<close> refuses to copy a file onto itself; the exception
  is caught, "failed (copy)!" is logged, the result is False and the file is as before.
\<close>

theorem install_plugin_same_file_caught:
  assumes "\<not> str_in ''__plugins__'' (py_name h)"
    and "dst = os_path_join (os_path_join (user_idadir h) ''plugins'') ''genmc.py''"
    and "py_file h = dst" and "fs_files h dst = Some content" and "dst \<notin> fs_dirs h"
    and "os_path_dirname dst \<in> fs_dirs h"
    and "ask_yn_reply h = ASKBTN_YES"
  shows "fst (install_plugin h) = Inr False
     \<and> last (events_of install_plugin h) = Kw_msg ''failed (copy)!\<newline>''
     \<and> fs_files (snd (install_plugin h)) = fs_files h"
  by (simp add: install_plugin_same_file [OF assms] events_of_def)

theorem install_plugin_same_file_caught_witness:
  "py_file (sample_host\<lparr>py_file := ''/home/u/.idapro/plugins/genmc.py'',
                         fs_files := [''/home/u/.idapro/plugins/genmc.py'' \<mapsto> ''# genmc''],
                         fs_dirs := {''/home/u/.idapro/plugins''}\<rparr>)
     = ''/home/u/.idapro/plugins/genmc.py''
   \<and> fst (install_plugin (sample_host\<lparr>py_file := ''/home/u/.idapro/plugins/genmc.py'',
                         fs_files := [''/home/u/.idapro/plugins/genmc.py'' \<mapsto> ''# genmc''],
                         fs_dirs := {''/home/u/.idapro/plugins''}\<rparr>)) = Inr False"
proof -
  let ?h = "sample_host\<lparr>py_file := ''/home/u/.idapro/plugins/genmc.py'',
                         fs_files := [''/home/u/.idapro/plugins/genmc.py'' \<mapsto> ''# genmc''],
                         fs_dirs := {''/home/u/.idapro/plugins''}\<rparr>"
  have a: "\<not> str_in ''__plugins__'' (py_name ?h)"
    by code_simp
  have b: "''/home/u/.idapro/plugins/genmc.py'' =
      os_path_join (os_path_join (user_idadir ?h) ''plugins'') ''genmc.py''"
    by code_simp
  have c: "py_file ?h = ''/home/u/.idapro/plugins/genmc.py''"
    by simp
  have d: "fs_files ?h ''/home/u/.idapro/plugins/genmc.py'' = Some ''# genmc''"
    by simp
  have e: "''/home/u/.idapro/plugins/genmc.py'' \<notin> fs_dirs ?h"
    by simp
  have f: "os_path_dirname ''/home/u/.idapro/plugins/genmc.py'' \<in> fs_dirs ?h"
  proof -
    have "os_path_dirname ''/home/u/.idapro/plugins/genmc.py'' = ''/home/u/.idapro/plugins''"
      by code_simp
    then show ?thesis by simp
  qed
  have g: "ask_yn_reply ?h = ASKBTN_YES"
    by (simp add: sample_host_def)
  from install_plugin_same_file_caught [OF a b c d e f g] c show ?thesis
    by simp
qed

end
